theory Spec2Isabelle
  imports Main "HOL-Library.Word" "HOL-Library.Multiset" "HOL-Library.Char_ord"
    "HOL-Library.List_Lexorder"
begin

unbundle bit_operations_syntax

section \<open>Values and exceptions of the provider base class\<close>

text \<open>
  The base provider (\<^verbatim>\<open>keep/providers/base/base_provider.py\<close>) works on dynamically
  typed Python values. The values that reach the functions verified here are the ones a
  JSON document or a workflow result can hold: \<^verbatim>\<open>None\<close>, booleans, integers, strings,
  lists and dictionaries with string keys. Floating point numbers are left out.
  A dictionary is an association list in insertion order, as Python keeps it.
  A string is a list of code points below 256; \<^verbatim>\<open>str.encode()\<close> writes it as UTF-8.
\<close>

datatype pyval =
    PNone
  | PBool bool
  | PInt int
  | PStr string
  | PList "pyval list"
  | PDict "(string \<times> pyval) list"

datatype error =
    TypeError
  | KeyError
  | AttributeError
  | UnboundLocalError
  | JSONDecodeError
  | NoFingerprintFound
  | StoreError

text \<open>Python truthiness: what \<^verbatim>\<open>if v:\<close> and \<^verbatim>\<open>not v\<close> test.\<close>

fun py_truthy :: "pyval \<Rightarrow> bool" where
  "py_truthy PNone = False"
| "py_truthy (PBool b) = b"
| "py_truthy (PInt i) = (i \<noteq> 0)"
| "py_truthy (PStr s) = (s \<noteq> [])"
| "py_truthy (PList xs) = (xs \<noteq> [])"
| "py_truthy (PDict kvs) = (kvs \<noteq> [])"

text \<open>\<^verbatim>\<open>d.get(k, None)\<close> on a dictionary held as an association list.\<close>

definition dict_get :: "(string \<times> pyval) list \<Rightarrow> string \<Rightarrow> pyval" where
  "dict_get d k = (case map_of d k of None \<Rightarrow> PNone | Some v \<Rightarrow> v)"

subsection \<open>Decimal and hexadecimal text\<close>

definition digit_char :: "nat \<Rightarrow> char" where
  "digit_char n = ''0123456789abcdef'' ! (n mod 16)"

fun str_nat :: "nat \<Rightarrow> string" where
  "str_nat n = (if n < 10 then [digit_char n] else str_nat (n div 10) @ [digit_char (n mod 10)])"

declare str_nat.simps [simp del]

text \<open>\<^verbatim>\<open>str(i)\<close> for an integer.\<close>

definition str_int :: "int \<Rightarrow> string" where
  "str_int i = (if i < 0 then CHR ''-'' # str_nat (nat (- i)) else str_nat (nat i))"

subsection \<open>\<^verbatim>\<open>json.dumps\<close> with its default arguments\<close>

text \<open>
  The defaults are \<^verbatim>\<open>ensure_ascii=True\<close>, separators \<^verbatim>\<open>", "\<close> and \<^verbatim>\<open>": "\<close>, and
  \<^verbatim>\<open>sort_keys=False\<close>: the keys of a dictionary are written in insertion order.
\<close>

definition json_escape_char :: "char \<Rightarrow> string" where
  "json_escape_char c =
     (let n = (of_char c :: nat) in
      if c = CHR ''\"'' then [CHR 0x5C, CHR ''\"'']
      else if n = 0x5C then [CHR 0x5C, CHR 0x5C]
      else if n = 0x0A then [CHR 0x5C, CHR ''n'']
      else if n = 0x0D then [CHR 0x5C, CHR ''r'']
      else if n = 0x09 then [CHR 0x5C, CHR ''t'']
      else if n = 0x08 then [CHR 0x5C, CHR ''b'']
      else if n = 0x0C then [CHR 0x5C, CHR ''f'']
      else if n < 0x20 \<or> 0x7E < n
        then [CHR 0x5C, CHR ''u'', CHR ''0'', CHR ''0'', digit_char (n div 16), digit_char (n mod 16)]
      else [c])"

definition json_string :: "string \<Rightarrow> string" where
  "json_string s = [CHR ''\"''] @ concat (map json_escape_char s) @ [CHR ''\"'']"

fun join_with :: "string \<Rightarrow> string list \<Rightarrow> string" where
  "join_with sep [] = []"
| "join_with sep [x] = x"
| "join_with sep (x # y # ys) = x @ sep @ join_with sep (y # ys)"

fun json_dumps :: "pyval \<Rightarrow> string" where
  "json_dumps PNone = ''null''"
| "json_dumps (PBool b) = (if b then ''true'' else ''false'')"
| "json_dumps (PInt i) = str_int i"
| "json_dumps (PStr s) = json_string s"
| "json_dumps (PList xs) = ''['' @ join_with '', '' (map json_dumps xs) @ '']''"
| "json_dumps (PDict kvs) =
     ''{'' @ join_with '', '' (map (\<lambda>(k, v). json_string k @ '': '' @ json_dumps v) kvs) @ ''}''"

subsection \<open>\<^verbatim>\<open>hashlib.sha256\<close>\<close>

type_synonym u32 = "32 word"
type_synonym byte = "8 word"

definition rotr :: "nat \<Rightarrow> u32 \<Rightarrow> u32" where
  "rotr n x = (drop_bit n x) OR (push_bit (32 - n) x)"

definition sha_ch :: "u32 \<Rightarrow> u32 \<Rightarrow> u32 \<Rightarrow> u32" where
  "sha_ch x y z = (x AND y) XOR ((NOT x) AND z)"

definition sha_maj :: "u32 \<Rightarrow> u32 \<Rightarrow> u32 \<Rightarrow> u32" where
  "sha_maj x y z = (x AND y) XOR (x AND z) XOR (y AND z)"

definition big_sigma0 :: "u32 \<Rightarrow> u32" where
  "big_sigma0 x = rotr 2 x XOR rotr 13 x XOR rotr 22 x"

definition big_sigma1 :: "u32 \<Rightarrow> u32" where
  "big_sigma1 x = rotr 6 x XOR rotr 11 x XOR rotr 25 x"

definition small_sigma0 :: "u32 \<Rightarrow> u32" where
  "small_sigma0 x = rotr 7 x XOR rotr 18 x XOR drop_bit 3 x"

definition small_sigma1 :: "u32 \<Rightarrow> u32" where
  "small_sigma1 x = rotr 17 x XOR rotr 19 x XOR drop_bit 10 x"

text \<open>
  The round constants (the fractional parts of the cube roots of the first 64 primes, on
  32 bits) and the initial state (of the square roots of the first 8 primes), in decimal.
\<close>

definition sha_k :: "u32 list" where
  "sha_k =
    [1116352408, 1899447441, 3049323471, 3921009573, 961987163, 1508970993,
     2453635748, 2870763221, 3624381080, 310598401, 607225278, 1426881987,
     1925078388, 2162078206, 2614888103, 3248222580, 3835390401, 4022224774,
     264347078, 604807628, 770255983, 1249150122, 1555081692, 1996064986,
     2554220882, 2821834349, 2952996808, 3210313671, 3336571891, 3584528711,
     113926993, 338241895, 666307205, 773529912, 1294757372, 1396182291,
     1695183700, 1986661051, 2177026350, 2456956037, 2730485921, 2820302411,
     3259730800, 3345764771, 3516065817, 3600352804, 4094571909, 275423344,
     430227734, 506948616, 659060556, 883997877, 958139571, 1322822218,
     1537002063, 1747873779, 1955562222, 2024104815, 2227730452, 2361852424,
     2428436474, 2756734187, 3204031479, 3329325298]"

definition sha_h0 :: "u32 list" where
  "sha_h0 =
    [1779033703, 3144134277, 1013904242, 2773480762,
     1359893119, 2600822924, 528734635, 1541459225]"

text \<open>The \<open>n\<close> low bytes of a number, most significant first.\<close>

fun be_bytes :: "nat \<Rightarrow> nat \<Rightarrow> byte list" where
  "be_bytes 0 v = []"
| "be_bytes (Suc n) v = be_bytes n (v div 256) @ [of_nat (v mod 256)]"

text \<open>Padding: a 1 bit, zeros up to 56 modulo 64 bytes, then the bit length on 8 bytes.\<close>

definition sha_pad :: "byte list \<Rightarrow> byte list" where
  "sha_pad m = (let l = length m; z = (119 - l mod 64) mod 64
                in m @ [0x80] @ replicate z 0 @ be_bytes 8 (8 * l))"

definition be_word :: "byte list \<Rightarrow> u32" where
  "be_word bs = foldl (\<lambda>acc b. push_bit 8 acc OR ucast b) 0 bs"

text \<open>The 64-byte blocks of the padded message; the first argument bounds their number.\<close>

fun sha_blocks :: "nat \<Rightarrow> byte list \<Rightarrow> byte list list" where
  "sha_blocks 0 bs = []"
| "sha_blocks (Suc f) bs = (if bs = [] then [] else take 64 bs # sha_blocks f (drop 64 bs))"

fun words_of :: "nat \<Rightarrow> byte list \<Rightarrow> u32 list" where
  "words_of 0 bs = []"
| "words_of (Suc n) bs = be_word (take 4 bs) # words_of n (drop 4 bs)"

text \<open>The message schedule; \<open>ws\<close> holds the words computed so far, the latest first.\<close>

fun sha_schedule :: "nat \<Rightarrow> u32 list \<Rightarrow> u32 list" where
  "sha_schedule 0 ws = ws"
| "sha_schedule (Suc n) ws =
     sha_schedule n ((small_sigma1 (ws ! 1) + ws ! 6 + small_sigma0 (ws ! 14) + ws ! 15) # ws)"

fun sha_round :: "u32 list \<Rightarrow> (u32 \<times> u32) \<Rightarrow> u32 list" where
  "sha_round [a, b, c, d, e, f, g, h] (k, w) =
     (let t1 = h + big_sigma1 e + sha_ch e f g + k + w;
          t2 = big_sigma0 a + sha_maj a b c
      in [t1 + t2, a, b, c, d + t1, e, f, g])"
| "sha_round s _ = s"

definition sha_compress :: "u32 list \<Rightarrow> byte list \<Rightarrow> u32 list" where
  "sha_compress hs block =
     (let w = rev (sha_schedule 48 (rev (words_of 16 block)));
          s = foldl sha_round hs (zip sha_k w)
      in map2 (+) hs s)"

definition sha256 :: "byte list \<Rightarrow> u32 list" where
  "sha256 m = (let p = sha_pad m in foldl sha_compress sha_h0 (sha_blocks (length p) p))"

definition hex_word :: "u32 \<Rightarrow> string" where
  "hex_word w = map (\<lambda>i. digit_char (unat (drop_bit (28 - 4 * i) w AND 0xf))) [0..<8]"

text \<open>\<^verbatim>\<open>hashlib.sha256(m).hexdigest()\<close>.\<close>

definition sha256_hex :: "byte list \<Rightarrow> string" where
  "sha256_hex m = concat (map hex_word (sha256 m))"

text \<open>\<^verbatim>\<open>s.encode()\<close>: UTF-8, one byte below 128 and two bytes from 128 to 255.\<close>

definition utf8_char :: "char \<Rightarrow> byte list" where
  "utf8_char c =
     (let n = (of_char c :: nat) in
      if n < 128 then [of_nat n] else [of_nat (192 + n div 64), of_nat (128 + n mod 64)])"

definition encode :: "string \<Rightarrow> byte list" where
  "encode s = concat (map utf8_char s)"

section \<open>The fingerprint of an alert\<close>

text \<open>
  An alert is the \<^verbatim>\<open>AlertDto\<close> object: its attributes by name, which is also the
  dictionary that \<^verbatim>\<open>alert.dict()\<close> returns. Reading an attribute that the object does
  not have raises \<^verbatim>\<open>AttributeError\<close>.
\<close>

type_synonym alert = "(string \<times> pyval) list"

definition getattr :: "alert \<Rightarrow> string \<Rightarrow> error + pyval" where
  "getattr a k = (case map_of a k of None \<Rightarrow> Inl AttributeError | Some v \<Rightarrow> Inr v)"

text \<open>
  One turn of the loop of \<^verbatim>\<open>get_alert_fingerprint\<close> on the value of a field:
  a list or a dictionary is replaced by its \<^verbatim>\<open>json.dumps\<close> text, then a falsy value is
  skipped and any other is fed to the digest as \<^verbatim>\<open>str(value)\<close>. The text of a list or
  dictionary is never empty, so these are always fed. The result is the text fed, if any.
\<close>

fun fingerprint_text :: "pyval \<Rightarrow> string option" where
  "fingerprint_text (PList xs) = Some (json_dumps (PList xs))"
| "fingerprint_text (PDict kvs) = Some (json_dumps (PDict kvs))"
| "fingerprint_text PNone = None"
| "fingerprint_text (PBool b) = (if b then Some ''True'' else None)"
| "fingerprint_text (PInt i) = (if i \<noteq> 0 then Some (str_int i) else None)"
| "fingerprint_text (PStr s) = (if s \<noteq> [] then Some s else None)"

text \<open>\<^verbatim>\<open>isinstance(v, (list, dict))\<close>.\<close>

fun is_composite :: "pyval \<Rightarrow> bool" where
  "is_composite (PList xs) = True"
| "is_composite (PDict kvs) = True"
| "is_composite v = False"

text \<open>
  The digest object is the list of the bytes it has been fed: \<^verbatim>\<open>update\<close> appends,
  \<^verbatim>\<open>hexdigest\<close> hashes the whole.
\<close>

fun fingerprint_update :: "alert \<Rightarrow> byte list \<Rightarrow> string list \<Rightarrow> byte list" where
  "fingerprint_update a fed [] = fed"
| "fingerprint_update a fed (f # fs) =
     (case fingerprint_text (dict_get a f) of
        None \<Rightarrow> fingerprint_update a fed fs
      | Some t \<Rightarrow> fingerprint_update a (fed @ encode t) fs)"

definition get_alert_fingerprint :: "alert \<Rightarrow> string list \<Rightarrow> error + pyval" where
  "get_alert_fingerprint a fingerprint_fields =
     (if fingerprint_fields = [] then getattr a ''name''
      else Inr (PStr (sha256_hex (fingerprint_update a [] fingerprint_fields))))"

section \<open>Enrichment of an alert\<close>

subsection \<open>String and subscript operations\<close>

text \<open>\<^verbatim>\<open>s.startswith(p)\<close>.\<close>

fun startswith :: "string \<Rightarrow> string \<Rightarrow> bool" where
  "startswith s [] = True"
| "startswith [] (p # ps) = False"
| "startswith (c # cs) (p # ps) = (c = p \<and> startswith cs ps)"

text \<open>\<^verbatim>\<open>sub in s\<close> for two strings.\<close>

fun str_contains :: "string \<Rightarrow> string \<Rightarrow> bool" where
  "str_contains [] sub = (sub = [])"
| "str_contains (c # cs) sub = (startswith (c # cs) sub \<or> str_contains cs sub)"

text \<open>
  \<^verbatim>\<open>s.replace(old, "")\<close> for a non-empty \<^verbatim>\<open>old\<close>: every occurrence of \<^verbatim>\<open>old\<close>,
  found from left to right without overlap, is removed.
\<close>

function str_remove :: "string \<Rightarrow> string \<Rightarrow> string" where
  "str_remove [] old = []"
| "str_remove (c # cs) old =
     (if old \<noteq> [] \<and> startswith (c # cs) old
      then str_remove (drop (length old) (c # cs)) old
      else c # str_remove cs old)"
  by pat_completeness auto
termination
  by (relation "measure (\<lambda>(s, old). length s)") (auto simp: neq_Nil_conv)

text \<open>\<^verbatim>\<open>s.split(sep)\<close> for a separator of one character: at least one part.\<close>

fun split_on :: "char \<Rightarrow> string \<Rightarrow> string list" where
  "split_on sep [] = [[]]"
| "split_on sep (c # cs) =
     (if c = sep then [] # split_on sep cs
      else (case split_on sep cs of
              [] \<Rightarrow> [[c]]
            | p # ps \<Rightarrow> (c # p) # ps))"

text \<open>
  \<^verbatim>\<open>v[k]\<close> with a string \<^verbatim>\<open>k\<close>: a dictionary looks the key up and raises
  \<^verbatim>\<open>KeyError\<close> when it is missing; a list, a string, a number or \<^verbatim>\<open>None\<close> raises
  \<^verbatim>\<open>TypeError\<close>.
\<close>

fun subscript :: "pyval \<Rightarrow> string \<Rightarrow> error + pyval" where
  "subscript (PDict d) k = (case map_of d k of None \<Rightarrow> Inl KeyError | Some v \<Rightarrow> Inr v)"
| "subscript v k = Inl TypeError"

text \<open>\<^verbatim>\<open>k in v\<close> with a string \<^verbatim>\<open>k\<close>.\<close>

fun py_in :: "string \<Rightarrow> pyval \<Rightarrow> error + bool" where
  "py_in k (PDict d) = Inr (k \<in> set (map fst d))"
| "py_in k (PList xs) = Inr (PStr k \<in> set xs)"
| "py_in k (PStr s) = Inr (str_contains s k)"
| "py_in k v = Inl TypeError"

subsection \<open>Dictionaries keyed by values\<close>

text \<open>
  \<^verbatim>\<open>_enrichments\<close> is a dictionary whose keys are whatever the instructions give.
  A list or a dictionary is not hashable. \<^verbatim>\<open>True\<close> and \<^verbatim>\<open>1\<close> (and \<^verbatim>\<open>False\<close> and
  \<^verbatim>\<open>0\<close>) are the same key. Storing under a key that is present replaces the value and
  keeps the key and its position.
\<close>

fun hashable :: "pyval \<Rightarrow> bool" where
  "hashable (PList xs) = False"
| "hashable (PDict kvs) = False"
| "hashable v = True"

fun key_norm :: "pyval \<Rightarrow> pyval" where
  "key_norm (PBool b) = PInt (if b then 1 else 0)"
| "key_norm v = v"

fun dict_set :: "(pyval \<times> 'v) list \<Rightarrow> pyval \<Rightarrow> 'v \<Rightarrow> (pyval \<times> 'v) list" where
  "dict_set [] k v = [(k, v)]"
| "dict_set ((k', v') # d) k v =
     (if key_norm k' = key_norm k then (k', v) # d else (k', v') # dict_set d k v)"

subsection \<open>The execution context\<close>

text \<open>
  The value of the foreach context and the event context are a plain value (a dictionary
  in the usual case), a tuple (a zipped foreach) or an \<^verbatim>\<open>AlertDto\<close> object.
\<close>

datatype ctxval =
    Plain pyval
  | Tuple "ctxval list"
  | Obj alert

fun ctx_truthy :: "ctxval \<Rightarrow> bool" where
  "ctx_truthy (Plain v) = py_truthy v"
| "ctx_truthy (Tuple xs) = (xs \<noteq> [])"
| "ctx_truthy (Obj a) = True"

record context_manager =
  tenant_id :: string
  api_key :: string
  foreach_context :: "(string \<times> ctxval) list"
  event_context :: ctxval

text \<open>\<^verbatim>\<open>self.context_manager.foreach_context.get("value", {})\<close>.\<close>

definition foreach_value :: "context_manager \<Rightarrow> ctxval" where
  "foreach_value cm =
     (case map_of (foreach_context cm) ''value'' of None \<Rightarrow> Plain (PDict []) | Some v \<Rightarrow> v)"

text \<open>\<^verbatim>\<open>foreach_context[0]\<close> when the value is a tuple (never empty here: it is truthy).\<close>

fun untuple :: "ctxval \<Rightarrow> ctxval" where
  "untuple (Tuple (x # xs)) = x"
| "untuple v = v"

text \<open>\<^verbatim>\<open>v.get(k)\<close>: only a dictionary has the method.\<close>

fun ctx_get :: "ctxval \<Rightarrow> string \<Rightarrow> error + pyval" where
  "ctx_get (Plain (PDict d)) k = Inr (dict_get d k)"
| "ctx_get v k = Inl AttributeError"

text \<open>
  The event context: \<^verbatim>\<open>.get("fingerprint")\<close> when it is a dictionary, the attribute
  \<^verbatim>\<open>.fingerprint\<close> otherwise.
\<close>

fun event_fingerprint :: "ctxval \<Rightarrow> error + pyval" where
  "event_fingerprint (Plain (PDict d)) = Inr (dict_get d ''fingerprint'')"
| "event_fingerprint (Obj a) = getattr a ''fingerprint''"
| "event_fingerprint v = Inl AttributeError"

subsection \<open>\<^verbatim>\<open>_enrich_alert\<close>\<close>

text \<open>The first part of \<^verbatim>\<open>_enrich_alert\<close>: where the fingerprint is taken from.\<close>

definition extract_fingerprint :: "context_manager \<Rightarrow> pyval \<Rightarrow> error + pyval" where
  "extract_fingerprint cm results =
     (case py_in ''fingerprint'' results of
        Inl e \<Rightarrow> Inl e
      | Inr True \<Rightarrow> subscript results ''fingerprint''
      | Inr False \<Rightarrow>
          if ctx_truthy (foreach_value cm)
            then ctx_get (untuple (foreach_value cm)) ''fingerprint''
          else if ctx_truthy (event_context cm)
            then event_fingerprint (event_context cm)
          else Inr PNone)"

text \<open>The walk \<^verbatim>\<open>for part in parts: r = r[part]\<close>.\<close>

fun walk :: "pyval \<Rightarrow> string list \<Rightarrow> error + pyval" where
  "walk r [] = Inr r"
| "walk r (part # parts) =
     (case subscript r part of Inl e \<Rightarrow> Inl e | Inr r' \<Rightarrow> walk r' parts)"

text \<open>\<^verbatim>\<open>_enrichments[enrichment["key"]] = r\<close>: the binding made, or the exception.\<close>

definition bind_key :: "pyval \<Rightarrow> pyval \<Rightarrow> error + (pyval \<times> pyval)" where
  "bind_key enrichment r =
     (case subscript enrichment ''key'' of
        Inl e \<Rightarrow> Inl e
      | Inr k \<Rightarrow> if hashable k then Inr (k, r) else Inl TypeError)"

text \<open>
  The body of the \<^verbatim>\<open>try\<close> for one instruction: the binding it makes, or the exception
  that the \<^verbatim>\<open>except\<close> clause catches.
\<close>

definition enrichment_binding :: "pyval \<Rightarrow> pyval \<Rightarrow> error + (pyval \<times> pyval)" where
  "enrichment_binding results enrichment =
     (case subscript enrichment ''value'' of
        Inl e \<Rightarrow> Inl e
      | Inr (PStr s) \<Rightarrow>
          if startswith s ''results.''
          then (case walk results (split_on CHR ''.'' (str_remove s ''results.'')) of
                  Inl e \<Rightarrow> Inl e
                | Inr r \<Rightarrow> bind_key enrichment r)
          else bind_key enrichment (PStr s)
      | Inr v \<Rightarrow> Inl AttributeError)"

text \<open>The loop over the instructions: an instruction that raises is skipped.\<close>

fun compute_enrichments ::
  "pyval \<Rightarrow> (pyval \<times> pyval) list \<Rightarrow> pyval list \<Rightarrow> (pyval \<times> pyval) list" where
  "compute_enrichments results acc [] = acc"
| "compute_enrichments results acc (enrichment # rest) =
     (case enrichment_binding results enrichment of
        Inl e \<Rightarrow> compute_enrichments results acc rest
      | Inr (k, v) \<Rightarrow> compute_enrichments results (dict_set acc k v) rest)"

text \<open>
  The enrichment store is outside this module. A call to \<^verbatim>\<open>enrich_alert(tenant_id,
  fingerprint, enrichments)\<close> is recorded, and the store answers with the exception it
  raises, if any.
\<close>

type_synonym store_call = "string \<times> pyval \<times> (pyval \<times> pyval) list"

type_synonym enrich_store = "string \<Rightarrow> pyval \<Rightarrow> (pyval \<times> pyval) list \<Rightarrow> error option"

definition provider_enrich_alert ::
  "enrich_store \<Rightarrow> context_manager \<Rightarrow> pyval list \<Rightarrow> pyval \<Rightarrow> store_call list
   \<Rightarrow> (error + unit) \<times> store_call list" where
  "provider_enrich_alert db_enrich_alert cm enrichments results calls =
     (case extract_fingerprint cm results of
        Inl e \<Rightarrow> (Inl e, calls)
      | Inr fingerprint \<Rightarrow>
          if \<not> py_truthy fingerprint then (Inl NoFingerprintFound, calls)
          else
            let enr = compute_enrichments results [] enrichments;
                calls' = calls @ [(tenant_id cm, fingerprint, enr)]
            in (case db_enrich_alert (tenant_id cm) fingerprint enr of
                  Some e \<Rightarrow> (Inl e, calls')
                | None \<Rightarrow> (Inr (), calls')))"

section \<open>Alerts grouped by fingerprint\<close>

subsection \<open>Alert objects\<close>

text \<open>
  The alerts that a provider returns are objects that \<^verbatim>\<open>get_alerts\<close> and
  \<^verbatim>\<open>get_alerts_by_fingerprint\<close> change in place and hand on by reference. An object is
  an address in a heap; a list of alerts is a list of addresses.
\<close>

type_synonym addr = nat

type_synonym heap = "addr \<Rightarrow> alert"

text \<open>\<^verbatim>\<open>setattr(alert, k, v)\<close>: an attribute that exists is replaced, a new one is added.\<close>

fun set_attr :: "alert \<Rightarrow> string \<Rightarrow> pyval \<Rightarrow> alert" where
  "set_attr [] k v = [(k, v)]"
| "set_attr ((k', v') # a) k v =
     (if k' = k then (k, v) # a else (k', v') # set_attr a k v)"

text \<open>
  What the module does not hold: the identifier of the provider, the enrichment store
  (\<^verbatim>\<open>get_enrichments\<close> answers with a list of records, some of which may be empty, or
  raises) and the helper \<^verbatim>\<open>parse_and_enrich_deleted_and_assignees\<close>, which changes
  the alert it is given.
\<close>

record alert_enrichment =
  alert_fingerprint :: string
  enrichments :: "(string \<times> pyval) list"

record provider =
  provider_id :: string
  db_get_enrichments :: "string \<Rightarrow> pyval list \<Rightarrow> error + alert_enrichment option list"
  parse_and_enrich_deleted_and_assignees :: "alert \<Rightarrow> (string \<times> pyval) list \<Rightarrow> alert"

text \<open>The heap and the calls made to \<^verbatim>\<open>get_enrichments\<close> so far.\<close>

record world =
  heap :: heap
  get_enrichments_calls :: "(string \<times> pyval list) list"

subsection \<open>\<^verbatim>\<open>get_alerts\<close>\<close>

text \<open>Each alert fetched is stamped with the identifier of the provider.\<close>

fun stamp_provider :: "string \<Rightarrow> heap \<Rightarrow> addr list \<Rightarrow> heap" where
  "stamp_provider pid h [] = h"
| "stamp_provider pid h (a # as) =
     stamp_provider pid (h(a := set_attr (h a) ''providerId'' (PStr pid))) as"

subsection \<open>Sorting and grouping by the \<^verbatim>\<open>fingerprint\<close> attribute\<close>

text \<open>
  \<^verbatim>\<open>sorted(alerts, key=attrgetter("fingerprint"))\<close> first reads the key of every alert,
  which raises \<^verbatim>\<open>AttributeError\<close> where the attribute is missing.
\<close>

fun attr_keys :: "heap \<Rightarrow> addr list \<Rightarrow> error + (pyval \<times> addr) list" where
  "attr_keys h [] = Inr []"
| "attr_keys h (a # as) =
     (case getattr (h a) ''fingerprint'' of
        Inl e \<Rightarrow> Inl e
      | Inr k \<Rightarrow> (case attr_keys h as of
                   Inl e \<Rightarrow> Inl e
                 | Inr ps \<Rightarrow> Inr ((k, a) # ps)))"

fun is_str :: "pyval \<Rightarrow> bool" where
  "is_str (PStr s) = True"
| "is_str v = False"

fun is_num :: "pyval \<Rightarrow> bool" where
  "is_num (PInt i) = True"
| "is_num (PBool b) = True"
| "is_num v = False"

fun str_key :: "pyval \<Rightarrow> string" where
  "str_key (PStr s) = s"
| "str_key v = []"

fun num_key :: "pyval \<Rightarrow> int" where
  "num_key (PInt i) = i"
| "num_key (PBool b) = (if b then 1 else 0)"
| "num_key v = 0"

text \<open>
  The sort is stable and compares keys with \<^verbatim>\<open><\<close>. With fewer than two alerts nothing
  is compared. Strings compare with strings, by code points; integers and booleans
  compare with each other, by value; \<^verbatim>\<open>None\<close> compares with nothing, and keys of two
  kinds do not compare: \<^verbatim>\<open>TypeError\<close>. A list or a dictionary as a key ends in
  \<^verbatim>\<open>TypeError\<close> as well, in the sort or when it is used as a dictionary key.
\<close>

definition py_sorted :: "(pyval \<times> 'a) list \<Rightarrow> error + (pyval \<times> 'a) list" where
  "py_sorted ps =
     (if length ps \<le> 1 then Inr ps
      else if list_all (\<lambda>p. is_str (fst p)) ps then Inr (sort_key (\<lambda>p. str_key (fst p)) ps)
      else if list_all (\<lambda>p. is_num (fst p)) ps then Inr (sort_key (\<lambda>p. num_key (fst p)) ps)
      else Inl TypeError)"

text \<open>
  \<^verbatim>\<open>itertools.groupby\<close>: the runs of consecutive elements with equal keys, each under
  the key of its first element.
\<close>

fun groupby :: "(pyval \<times> 'a) list \<Rightarrow> (pyval \<times> 'a list) list" where
  "groupby [] = []"
| "groupby ((k, x) # ps) =
     (case groupby ps of
        [] \<Rightarrow> [(k, [x])]
      | (k', g) # rest \<Rightarrow>
          if key_norm k = key_norm k' then (k, x # g) # rest
          else (k, [x]) # (k', g) # rest)"

text \<open>The dictionary comprehension: a later group replaces an earlier one with its key.\<close>

fun build_dict ::
  "(pyval \<times> 'v) list \<Rightarrow> (pyval \<times> 'v) list \<Rightarrow> error + (pyval \<times> 'v) list" where
  "build_dict d [] = Inr d"
| "build_dict d ((k, g) # rest) =
     (if hashable k then build_dict (dict_set d k g) rest else Inl TypeError)"

definition group_by_fingerprint :: "heap \<Rightarrow> addr list \<Rightarrow> error + (pyval \<times> addr list) list" where
  "group_by_fingerprint h alerts =
     (case attr_keys h alerts of
        Inl e \<Rightarrow> Inl e
      | Inr ps \<Rightarrow> (case py_sorted ps of
                    Inl e \<Rightarrow> Inl e
                  | Inr sorted_ps \<Rightarrow> build_dict [] (groupby sorted_ps)))"

subsection \<open>The overlay of the stored enrichments\<close>

text \<open>\<^verbatim>\<open>grouped_alerts.get(k)\<close>.\<close>

fun dict_lookup :: "(pyval \<times> 'v) list \<Rightarrow> pyval \<Rightarrow> 'v option" where
  "dict_lookup [] k = None"
| "dict_lookup ((k', v) # d) k = (if key_norm k' = key_norm k then Some v else dict_lookup d k)"

text \<open>One alert: the helper, then every enrichment set as an attribute.\<close>

definition enrich_one :: "provider \<Rightarrow> (string \<times> pyval) list \<Rightarrow> alert \<Rightarrow> alert" where
  "enrich_one p enr a =
     foldl (\<lambda>obj (k, v). set_attr obj k v) (parse_and_enrich_deleted_and_assignees p a enr) enr"

fun enrich_group :: "provider \<Rightarrow> (string \<times> pyval) list \<Rightarrow> heap \<Rightarrow> addr list \<Rightarrow> heap" where
  "enrich_group p enr h [] = h"
| "enrich_group p enr h (a # as) = enrich_group p enr (h(a := enrich_one p enr (h a))) as"

text \<open>
  The loop over the records of the store. A record for a fingerprint that has no group
  makes \<^verbatim>\<open>grouped_alerts.get\<close> return \<^verbatim>\<open>None\<close>, and iterating over it raises
  \<^verbatim>\<open>TypeError\<close>.
\<close>

fun enrich_alerts ::
  "provider \<Rightarrow> (pyval \<times> addr list) list \<Rightarrow> heap \<Rightarrow> alert_enrichment option list
   \<Rightarrow> error option \<times> heap" where
  "enrich_alerts p grouped h [] = (None, h)"
| "enrich_alerts p grouped h (None # recs) = enrich_alerts p grouped h recs"
| "enrich_alerts p grouped h (Some r # recs) =
     (case dict_lookup grouped (PStr (alert_fingerprint r)) of
        None \<Rightarrow> (Some TypeError, h)
      | Some alerts_to_enrich \<Rightarrow>
          enrich_alerts p grouped (enrich_group p (enrichments r) h alerts_to_enrich) recs)"

subsection \<open>\<^verbatim>\<open>get_alerts_by_fingerprint\<close>\<close>

text \<open>
  The argument \<open>fetched\<close> is the list that the provider's \<^verbatim>\<open>_get_alerts\<close> returns.
\<close>

definition get_alerts_by_fingerprint ::
  "provider \<Rightarrow> string \<Rightarrow> addr list \<Rightarrow> world \<Rightarrow> (error + (pyval \<times> addr list) list) \<times> world" where
  "get_alerts_by_fingerprint p tenant fetched w =
     (let h1 = stamp_provider (provider_id p) (heap w) fetched;
          w1 = w\<lparr>heap := h1\<rparr>
      in if fetched = [] then (Inr [], w1)
         else
           (case group_by_fingerprint h1 fetched of
              Inl e \<Rightarrow> (Inl e, w1)
            | Inr grouped_alerts \<Rightarrow>
                let w2 = w1\<lparr>get_enrichments_calls :=
                            get_enrichments_calls w1 @ [(tenant, map fst grouped_alerts)]\<rparr>
                in (case db_get_enrichments p tenant (map fst grouped_alerts) of
                      Inl e \<Rightarrow> (Inl e, w2)
                    | Inr pulled \<Rightarrow>
                        (case enrich_alerts p grouped_alerts h1 pulled of
                           (Some e, h2) \<Rightarrow> (Inl e, w2\<lparr>heap := h2\<rparr>)
                         | (None, h2) \<Rightarrow> (Inr grouped_alerts, w2\<lparr>heap := h2\<rparr>)))))"

section \<open>Pushing an alert\<close>

subsection \<open>\<^verbatim>\<open>json.loads\<close>\<close>

text \<open>
  Modelled from the Python standard library (\<^verbatim>\<open>json.decoder\<close>, \<^verbatim>\<open>json.scanner\<close>):
  \<^verbatim>\<open>json.loads\<close> raises \<^verbatim>\<open>TypeError\<close> for an argument that is not text. On a text it
  skips white space and looks at the first character: a quote, a brace or a bracket
  starts a string, an object or an array; \<^verbatim>\<open>n\<close>, \<^verbatim>\<open>t\<close>, \<^verbatim>\<open>f\<close> must start \<^verbatim>\<open>null\<close>,
  \<^verbatim>\<open>true\<close>, \<^verbatim>\<open>false\<close>; a digit, or a minus sign before a digit, starts a number;
  then come \<^verbatim>\<open>NaN\<close>, \<^verbatim>\<open>Infinity\<close> and \<^verbatim>\<open>-Infinity\<close>. Anything else, or no character at
  all, raises \<^verbatim>\<open>JSONDecodeError\<close> (expecting value). The rest of the decoder, which reads
  the value that starts there and may raise as well, is a parameter.
\<close>

definition is_json_space :: "char \<Rightarrow> bool" where
  "is_json_space c = (c = CHR '' '' \<or> c = CHR 0x09 \<or> c = CHR 0x0A \<or> c = CHR 0x0D)"

definition is_ascii_digit :: "char \<Rightarrow> bool" where
  "is_ascii_digit c = (48 \<le> (of_char c :: nat) \<and> (of_char c :: nat) \<le> 57)"

definition json_expecting_value :: "string \<Rightarrow> bool" where
  "json_expecting_value s =
     (case dropWhile is_json_space s of
        [] \<Rightarrow> True
      | c # cs \<Rightarrow>
          if c = CHR ''\"'' \<or> c = CHR ''{'' \<or> c = CHR ''['' then False
          else if c = CHR ''n'' \<and> startswith (c # cs) ''null'' then False
          else if c = CHR ''t'' \<and> startswith (c # cs) ''true'' then False
          else if c = CHR ''f'' \<and> startswith (c # cs) ''false'' then False
          else if is_ascii_digit c
                  \<or> (c = CHR ''-'' \<and> (case cs of [] \<Rightarrow> False | d # ds \<Rightarrow> is_ascii_digit d))
            then False
          else if c = CHR ''N'' \<and> startswith (c # cs) ''NaN'' then False
          else if c = CHR ''I'' \<and> startswith (c # cs) ''Infinity'' then False
          else if c = CHR ''-'' \<and> startswith (c # cs) ''-Infinity'' then False
          else True)"

fun json_loads :: "(string \<Rightarrow> error + pyval) \<Rightarrow> pyval \<Rightarrow> error + pyval" where
  "json_loads decode_value (PStr s) =
     (if json_expecting_value s then Inl JSONDecodeError else decode_value s)"
| "json_loads decode_value v = Inl TypeError"

subsection \<open>\<^verbatim>\<open>_push_alert\<close>\<close>

text \<open>
  What \<^verbatim>\<open>_push_alert\<close> takes from outside: the rest of the JSON decoder, two fresh
  UUIDs and the current time, the members \<^verbatim>\<open>AlertStatus.FIRING\<close> and
  \<^verbatim>\<open>AlertSeverity.INFO\<close> of the enumerations, the type of the provider, the
  \<^verbatim>\<open>KEEP_API_URL\<close> entry of the environment if there is one, the API key of the
  context, the constructor of
  \<^verbatim>\<open>AlertDto\<close> followed by \<^verbatim>\<open>.dict()\<close> (validation may raise), and \<^verbatim>\<open>requests.post\<close>
  followed by \<^verbatim>\<open>raise_for_status\<close> (the post may raise; otherwise the status is good or
  bad).
\<close>

record push_env =
  decode_value :: "string \<Rightarrow> error + pyval"
  fresh_id :: string
  fresh_event_id :: string
  now :: pyval
  status_firing :: pyval
  severity_info :: pyval
  provider_type :: string
  keep_api_url :: "string option"
  context_api_key :: string
  alert_dto :: "(string \<times> pyval) list \<Rightarrow> error + (string \<times> pyval) list"
  requests_post ::
    "string \<Rightarrow> (string \<times> pyval) list \<Rightarrow> (string \<times> string) list \<Rightarrow> error + bool"

text \<open>
  The function returns \<^verbatim>\<open>None\<close> on every path that does not raise; the paths differ
  in what they log: the warning that the alert is dismissed, the success of the push, or
  its failure.
\<close>

datatype push_outcome = Dismissed | Pushed | PushFailed

type_synonym post = "string \<times> (string \<times> pyval) list \<times> (string \<times> string) list"

text \<open>\<^verbatim>\<open>d.get(k, default)\<close>.\<close>

definition get_default :: "(string \<times> pyval) list \<Rightarrow> string \<Rightarrow> pyval \<Rightarrow> pyval" where
  "get_default d k dflt = (case map_of d k of None \<Rightarrow> dflt | Some v \<Rightarrow> v)"

text \<open>The arguments of the constructor, each with its default.\<close>

definition alert_arguments :: "push_env \<Rightarrow> (string \<times> pyval) list \<Rightarrow> (string \<times> pyval) list" where
  "alert_arguments env alert_data =
     [(''id'', get_default alert_data ''id'' (PStr (fresh_id env))),
      (''name'', get_default alert_data ''name'' (PStr ''alert-from-event-queue'')),
      (''status'', get_default alert_data ''status'' (status_firing env)),
      (''lastReceived'', get_default alert_data ''lastReceived'' (now env)),
      (''environment'', get_default alert_data ''environment'' (PStr ''alert-from-event-queue'')),
      (''isDuplicate'', get_default alert_data ''isDuplicate'' (PBool False)),
      (''duplicateReason'', get_default alert_data ''duplicateReason'' PNone),
      (''service'', get_default alert_data ''service'' (PStr ''alert-from-event-queue'')),
      (''source'', get_default alert_data ''source'' (PList [PStr (provider_type env)])),
      (''message'', get_default alert_data ''message'' (PStr ''alert-from-event-queue'')),
      (''description'', get_default alert_data ''description'' (PStr ''alert-from-event-queue'')),
      (''severity'', get_default alert_data ''severity'' (severity_info env)),
      (''pushed'', get_default alert_data ''pushed'' (PBool False)),
      (''event_id'', get_default alert_data ''event_id'' (PStr (fresh_event_id env))),
      (''url'', get_default alert_data ''url'' PNone),
      (''fingerprint'', get_default alert_data ''fingerprint'' PNone)]"

text \<open>
  The first statement: a dictionary is taken as it is; anything else goes through
  \<^verbatim>\<open>json.loads\<close>, and when that raises, the handler runs \<^verbatim>\<open>alert_data = alert_data\<close>,
  which reads a local variable that has no value yet and raises \<^verbatim>\<open>UnboundLocalError\<close>.
\<close>

definition to_alert_data :: "push_env \<Rightarrow> pyval \<Rightarrow> error + pyval" where
  "to_alert_data env alert =
     (case alert of
        PDict d \<Rightarrow> Inr alert
      | _ \<Rightarrow> (case json_loads (decode_value env) alert of
                Inr v \<Rightarrow> Inr v
              | Inl e \<Rightarrow> Inl UnboundLocalError))"

definition push_alert :: "push_env \<Rightarrow> pyval \<Rightarrow> post list \<Rightarrow> (error + push_outcome) \<times> post list" where
  "push_alert env alert posts =
     (case to_alert_data env alert of
        Inl e \<Rightarrow> (Inl e, posts)
      | Inr (PDict alert_data) \<Rightarrow>
          (case alert_dto env (alert_arguments env alert_data) of
             Inl e \<Rightarrow> (Inl e, posts)
           | Inr alert_model \<Rightarrow>
               (case keep_api_url env of
                  None \<Rightarrow> (Inl KeyError, posts)
                | Some base \<Rightarrow>
                    let url = base @ ''/alerts/event'';
                        headers = [(''Content-Type'', ''application/json''),
                                   (''Accept'', ''application/json''),
                                   (''X-API-KEY'', context_api_key env)];
                        posts' = posts @ [(url, alert_model, headers)]
                    in (case requests_post env url alert_model headers of
                          Inl e \<Rightarrow> (Inl e, posts')
                        | Inr ok \<Rightarrow> (Inr (if ok then Pushed else PushFailed), posts'))))
      | Inr v \<Rightarrow> (Inr Dismissed, posts))"

section \<open>Example inputs\<close>

text \<open>A provider whose store holds no enrichment and whose helper changes nothing.\<close>

definition example_provider :: provider where
  "example_provider =
     \<lparr>provider_id = ''prov'',
      db_get_enrichments = (\<lambda>tenant keys. Inr []),
      parse_and_enrich_deleted_and_assignees = (\<lambda>a enr. a)\<rparr>"

text \<open>Three alerts with the fingerprints f1, f2, f1, received on day 1, 3 and 2.\<close>

definition three_alerts :: heap where
  "three_alerts = (\<lambda>a. [])
     (0 := [(''name'', PStr ''a''), (''fingerprint'', PStr ''f1''),
            (''lastReceived'', PStr ''2024-01-01T00:00:00'')],
      1 := [(''name'', PStr ''b''), (''fingerprint'', PStr ''f2''),
            (''lastReceived'', PStr ''2024-01-03T00:00:00'')],
      2 := [(''name'', PStr ''c''), (''fingerprint'', PStr ''f1''),
            (''lastReceived'', PStr ''2024-01-02T00:00:00'')])"

text \<open>Two alerts with the same fingerprint, the later one fetched first.\<close>

definition two_alerts :: heap where
  "two_alerts = (\<lambda>a. [])
     (0 := [(''name'', PStr ''a''), (''fingerprint'', PStr ''f1''),
            (''lastReceived'', PStr ''2024-01-02T00:00:00'')],
      1 := [(''name'', PStr ''b''), (''fingerprint'', PStr ''f1''),
            (''lastReceived'', PStr ''2024-01-01T00:00:00'')])"

text \<open>
  Inputs of \<^verbatim>\<open>_enrich_alert\<close>: a store that accepts every call, one literal
  instruction, results with a fingerprint, without one and with an empty one, and
  execution contexts. In \<open>zipped_context\<close> the foreach value is a tuple whose first
  element has the fingerprint f, and the event context is an alert with the fingerprint
  e. In \<open>foreach_without_fingerprint\<close> the foreach value has no fingerprint, the event
  context has. In \<open>event_alert_context\<close> and \<open>event_dict_context\<close> there is no foreach
  value and the event context is an alert or a dictionary. In \<open>empty_context\<close> there is
  neither.
\<close>

definition store_accepts :: enrich_store where
  "store_accepts = (\<lambda>tenant fingerprint enr. None)"

definition one_instruction :: "pyval list" where
  "one_instruction = [PDict [(''key'', PStr ''x''), (''value'', PStr ''y'')]]"

definition results_with_fingerprint :: pyval where
  "results_with_fingerprint = PDict [(''id'', PStr ''42''), (''fingerprint'', PStr ''r'')]"

definition results_without_fingerprint :: pyval where
  "results_without_fingerprint = PDict [(''id'', PStr ''42'')]"

definition results_empty_fingerprint :: pyval where
  "results_empty_fingerprint = PDict [(''fingerprint'', PStr [])]"

definition zipped_context :: context_manager where
  "zipped_context =
     \<lparr>tenant_id = ''t1'', api_key = ''k'',
      foreach_context =
        [(''value'', Tuple [Plain (PDict [(''fingerprint'', PStr ''f'')]), Plain (PInt 3)])],
      event_context = Obj [(''name'', PStr ''n''), (''fingerprint'', PStr ''e'')]\<rparr>"

definition foreach_without_fingerprint :: context_manager where
  "foreach_without_fingerprint =
     \<lparr>tenant_id = ''t1'', api_key = ''k'',
      foreach_context = [(''value'', Plain (PDict [(''name'', PStr ''n'')]))],
      event_context = Obj [(''name'', PStr ''n''), (''fingerprint'', PStr ''e'')]\<rparr>"

definition event_alert_context :: context_manager where
  "event_alert_context =
     \<lparr>tenant_id = ''t1'', api_key = ''k'',
      foreach_context = [(''value'', Plain PNone)],
      event_context = Obj [(''name'', PStr ''n''), (''fingerprint'', PStr ''e'')]\<rparr>"

definition event_dict_context :: context_manager where
  "event_dict_context =
     \<lparr>tenant_id = ''t1'', api_key = ''k'',
      foreach_context = [],
      event_context = Plain (PDict [(''fingerprint'', PStr ''d'')])\<rparr>"

definition empty_context :: context_manager where
  "empty_context =
     \<lparr>tenant_id = ''t1'', api_key = ''k'',
      foreach_context = [(''value'', Plain PNone)],
      event_context = Plain PNone\<rparr>"

section \<open>Properties of the fingerprint\<close>

lemma fingerprint_update_same_text:
  "\<forall>f\<in>set fs. fingerprint_text (dict_get a f) = fingerprint_text (dict_get b f)
   \<Longrightarrow> fingerprint_update a fed fs = fingerprint_update b fed fs"
  by (induction fs arbitrary: fed) (auto split: option.splits)

lemma fingerprint_update_skipped:
  "\<forall>f\<in>set fs. fingerprint_text (dict_get a f) = None
   \<Longrightarrow> fingerprint_update a fed fs = fed"
  by (induction fs arbitrary: fed) auto

lemma fingerprint_text_composite:
  "is_composite v \<Longrightarrow> fingerprint_text v = Some (json_dumps v)"
  by (cases v) simp_all

lemma sha256_hex_empty:
  "sha256_hex [] = ''e3b0c44298fc1c149afbf4c8996fb92427ae41e4649b934ca495991b7852b855''"
  by code_simp

text \<open>
  C8. With an empty list of fingerprint fields, \<^verbatim>\<open>get_alert_fingerprint\<close> returns the
  \<^verbatim>\<open>name\<close> attribute of the alert as it is; nothing is hashed.
\<close>

theorem get_alert_fingerprint_no_fields:
  "get_alert_fingerprint a [] = getattr a ''name''"
  by (simp add: get_alert_fingerprint_def)

text \<open>
  C9. For a non-empty list of fields, two alerts whose values agree on every field of the
  list have the same fingerprint, whatever their other fields hold.
\<close>

theorem get_alert_fingerprint_projection:
  assumes "fs \<noteq> []"
    and "\<forall>f\<in>set fs. dict_get a f = dict_get b f"
  shows "get_alert_fingerprint a fs = get_alert_fingerprint b fs"
proof -
  from assms(2)
  have "\<forall>f\<in>set fs. fingerprint_text (dict_get a f) = fingerprint_text (dict_get b f)"
    by simp
  then have "fingerprint_update a [] fs = fingerprint_update b [] fs"
    by (rule fingerprint_update_same_text)
  with assms(1) show ?thesis
    by (simp add: get_alert_fingerprint_def)
qed

theorem get_alert_fingerprint_projection_witness:
  "[''service'', ''labels''] \<noteq> []
   \<and> dict_get [(''name'', PStr ''cpu high''), (''service'', PStr ''api''),
                (''labels'', PDict [(''zone'', PStr ''eu'')]), (''message'', PStr ''first'')] ''service''
     = dict_get [(''name'', PStr ''disk full''), (''service'', PStr ''api''),
                (''labels'', PDict [(''zone'', PStr ''eu'')]), (''url'', PNone)] ''service''
   \<and> dict_get [(''name'', PStr ''cpu high''), (''service'', PStr ''api''),
                (''labels'', PDict [(''zone'', PStr ''eu'')]), (''message'', PStr ''first'')] ''labels''
     = dict_get [(''name'', PStr ''disk full''), (''service'', PStr ''api''),
                (''labels'', PDict [(''zone'', PStr ''eu'')]), (''url'', PNone)] ''labels''
   \<and> get_alert_fingerprint
         [(''name'', PStr ''cpu high''), (''service'', PStr ''api''),
          (''labels'', PDict [(''zone'', PStr ''eu'')]), (''message'', PStr ''first'')]
         [''service'', ''labels'']
     = get_alert_fingerprint
         [(''name'', PStr ''disk full''), (''service'', PStr ''api''),
          (''labels'', PDict [(''zone'', PStr ''eu'')]), (''url'', PNone)]
         [''service'', ''labels'']"
proof -
  have nonempty: "[''service'', ''labels''] \<noteq> []"
    by simp
  have agree: "\<forall>f\<in>set [''service'', ''labels''].
         dict_get [(''name'', PStr ''cpu high''), (''service'', PStr ''api''),
                   (''labels'', PDict [(''zone'', PStr ''eu'')]), (''message'', PStr ''first'')] f
       = dict_get [(''name'', PStr ''disk full''), (''service'', PStr ''api''),
                   (''labels'', PDict [(''zone'', PStr ''eu'')]), (''url'', PNone)] f"
    by (simp add: dict_get_def)
  from get_alert_fingerprint_projection [OF nonempty agree] agree
  show ?thesis by simp
qed

text \<open>Digests of the inputs used in the examples below.\<close>

lemma sha256_hex_brackets:
  "sha256_hex [0x5B, 0x5D] = ''4f53cda18c2baa0c0354bb5f9a3ecbe5ed12ab4d8e11ba873c2f11161202b945''"
  by code_simp

lemma sha256_hex_a_then_b:
  "sha256_hex [123, 34, 97, 34, 58, 32, 49, 44, 32, 34, 98, 34, 58, 32, 50, 125]
   = ''d8497d9d82770a70729261095aa98f7ef5154d7af499f8037b6ca250296785a6''"
  by code_simp

lemma sha256_hex_b_then_a:
  "sha256_hex [123, 34, 98, 34, 58, 32, 50, 44, 32, 34, 97, 34, 58, 32, 49, 125]
   = ''d5b8aed265256c893850d31609a884cd910a452df090e34ce4d318c9ef5bd771''"
  by code_simp

lemma json_dumps_a_then_b:
  "encode (json_dumps (PDict [(''a'', PInt 1), (''b'', PInt 2)]))
   = [123, 34, 97, 34, 58, 32, 49, 44, 32, 34, 98, 34, 58, 32, 50, 125]"
  by (simp add: encode_def utf8_char_def json_string_def json_escape_char_def str_int_def
      str_nat.simps digit_char_def)

lemma json_dumps_b_then_a:
  "encode (json_dumps (PDict [(''b'', PInt 2), (''a'', PInt 1)]))
   = [123, 34, 98, 34, 58, 32, 50, 44, 32, 34, 97, 34, 58, 32, 49, 125]"
  by (simp add: encode_def utf8_char_def json_string_def json_escape_char_def str_int_def
      str_nat.simps digit_char_def)

lemma json_dumps_empty_list: "encode (json_dumps (PList [])) = [0x5B, 0x5D]"
  by (simp add: encode_def utf8_char_def)

text \<open>
  C10, as stated: whenever every listed field of the alert is falsy or absent, the
  fingerprint is the digest of the empty input. It fails for an empty list, which is falsy
  but is first replaced by its JSON text \<^verbatim>\<open>[]\<close> and then fed to the digest.
\<close>

theorem get_alert_fingerprint_falsy_list_counterexample:
  "[''labels''] \<noteq> []
   \<and> \<not> py_truthy (dict_get [(''name'', PStr ''cpu high''), (''labels'', PList [])] ''labels'')
   \<and> get_alert_fingerprint [(''name'', PStr ''cpu high''), (''labels'', PList [])] [''labels'']
       \<noteq> Inr (PStr (sha256_hex []))"
  by (simp add: get_alert_fingerprint_def dict_get_def json_dumps_empty_list
      sha256_hex_brackets sha256_hex_empty del: json_dumps.simps)

text \<open>
  C10, amended: for a non-empty list of fields whose values on the alert are all absent,
  \<^verbatim>\<open>None\<close>, \<^verbatim>\<open>False\<close>, \<^verbatim>\<open>0\<close> or the empty string, the fingerprint is the digest of the
  empty input, a constant that does not depend on the name of the alert.
\<close>

theorem get_alert_fingerprint_all_skipped:
  assumes "fs \<noteq> []"
    and "\<forall>f\<in>set fs. dict_get a f \<in> {PNone, PBool False, PInt 0, PStr []}"
  shows "get_alert_fingerprint a fs = Inr (PStr (sha256_hex []))
         \<and> sha256_hex [] = ''e3b0c44298fc1c149afbf4c8996fb92427ae41e4649b934ca495991b7852b855''"
proof -
  have "\<forall>f\<in>set fs. fingerprint_text (dict_get a f) = None"
  proof
    fix f assume "f \<in> set fs"
    with assms(2) have "dict_get a f \<in> {PNone, PBool False, PInt 0, PStr []}" ..
    then show "fingerprint_text (dict_get a f) = None" by auto
  qed
  then have "fingerprint_update a [] fs = []"
    by (rule fingerprint_update_skipped)
  with assms(1) show ?thesis
    by (simp add: get_alert_fingerprint_def sha256_hex_empty)
qed

theorem get_alert_fingerprint_all_skipped_witness:
  "[''service'', ''pushed'', ''count'', ''url'', ''missing''] \<noteq> []
   \<and> dict_get [(''name'', PStr ''cpu high''), (''service'', PStr []), (''pushed'', PBool False),
                (''count'', PInt 0), (''url'', PNone)] ''service'' = PStr []
   \<and> dict_get [(''name'', PStr ''cpu high''), (''service'', PStr []), (''pushed'', PBool False),
                (''count'', PInt 0), (''url'', PNone)] ''pushed'' = PBool False
   \<and> dict_get [(''name'', PStr ''cpu high''), (''service'', PStr []), (''pushed'', PBool False),
                (''count'', PInt 0), (''url'', PNone)] ''count'' = PInt 0
   \<and> dict_get [(''name'', PStr ''cpu high''), (''service'', PStr []), (''pushed'', PBool False),
                (''count'', PInt 0), (''url'', PNone)] ''url'' = PNone
   \<and> dict_get [(''name'', PStr ''cpu high''), (''service'', PStr []), (''pushed'', PBool False),
                (''count'', PInt 0), (''url'', PNone)] ''missing'' = PNone
   \<and> get_alert_fingerprint
         [(''name'', PStr ''cpu high''), (''service'', PStr []), (''pushed'', PBool False),
          (''count'', PInt 0), (''url'', PNone)]
         [''service'', ''pushed'', ''count'', ''url'', ''missing'']
       = Inr (PStr ''e3b0c44298fc1c149afbf4c8996fb92427ae41e4649b934ca495991b7852b855'')"
proof -
  have nonempty: "[''service'', ''pushed'', ''count'', ''url'', ''missing''] \<noteq> []"
    by simp
  have skipped: "\<forall>f\<in>set [''service'', ''pushed'', ''count'', ''url'', ''missing''].
         dict_get [(''name'', PStr ''cpu high''), (''service'', PStr []), (''pushed'', PBool False),
                   (''count'', PInt 0), (''url'', PNone)] f
         \<in> {PNone, PBool False, PInt 0, PStr []}"
    by (simp add: dict_get_def)
  from get_alert_fingerprint_all_skipped [OF nonempty skipped]
  show ?thesis by (simp add: dict_get_def)
qed

text \<open>
  C5, as stated: two alerts whose field values are equal as mappings receive the same
  fingerprint. It fails for the same two entries inserted in different orders:
  \<^verbatim>\<open>json.dumps\<close> writes the keys in insertion order.
\<close>

theorem get_alert_fingerprint_key_order_counterexample:
  "map_of [(''a'', PInt 1), (''b'', PInt 2)] = map_of [(''b'', PInt 2), (''a'', PInt 1)]
   \<and> dict_get [(''name'', PStr ''cpu high''), (''labels'', PDict [(''a'', PInt 1), (''b'', PInt 2)])]
        ''labels'' = PDict [(''a'', PInt 1), (''b'', PInt 2)]
   \<and> dict_get [(''name'', PStr ''cpu high''), (''labels'', PDict [(''b'', PInt 2), (''a'', PInt 1)])]
        ''labels'' = PDict [(''b'', PInt 2), (''a'', PInt 1)]
   \<and> get_alert_fingerprint
        [(''name'', PStr ''cpu high''), (''labels'', PDict [(''a'', PInt 1), (''b'', PInt 2)])]
        [''labels'']
     \<noteq> get_alert_fingerprint
        [(''name'', PStr ''cpu high''), (''labels'', PDict [(''b'', PInt 2), (''a'', PInt 1)])]
        [''labels'']"
proof -
  have same_mapping:
    "map_of [(''a'', PInt 1), (''b'', PInt 2)] = map_of [(''b'', PInt 2), (''a'', PInt 1)]"
    by (rule ext) simp
  have field_values:
    "dict_get [(''name'', PStr ''cpu high''), (''labels'', PDict [(''a'', PInt 1), (''b'', PInt 2)])]
        ''labels'' = PDict [(''a'', PInt 1), (''b'', PInt 2)]"
    "dict_get [(''name'', PStr ''cpu high''), (''labels'', PDict [(''b'', PInt 2), (''a'', PInt 1)])]
        ''labels'' = PDict [(''b'', PInt 2), (''a'', PInt 1)]"
    by (simp_all add: dict_get_def)
  have differ:
    "get_alert_fingerprint
        [(''name'', PStr ''cpu high''), (''labels'', PDict [(''a'', PInt 1), (''b'', PInt 2)])]
        [''labels'']
     \<noteq> get_alert_fingerprint
        [(''name'', PStr ''cpu high''), (''labels'', PDict [(''b'', PInt 2), (''a'', PInt 1)])]
        [''labels'']"
    by (simp add: get_alert_fingerprint_def field_values json_dumps_a_then_b json_dumps_b_then_a
        sha256_hex_a_then_b sha256_hex_b_then_a del: json_dumps.simps)
  from same_mapping field_values differ show ?thesis by blast
qed

text \<open>
  C5, amended: a list or a mapping is written with \<^verbatim>\<open>json.dumps\<close>, the keys in
  insertion order, before it is fed to the digest. Two alerts whose values on every
  listed field are either equal, or both composite with the same \<^verbatim>\<open>json.dumps\<close> text
  (the same entries in the same order), receive the same fingerprint.
\<close>

theorem get_alert_fingerprint_same_serialization:
  assumes "fs \<noteq> []"
    and "\<forall>f\<in>set fs. dict_get a f = dict_get b f
           \<or> (is_composite (dict_get a f) \<and> is_composite (dict_get b f)
              \<and> json_dumps (dict_get a f) = json_dumps (dict_get b f))"
  shows "get_alert_fingerprint a fs = get_alert_fingerprint b fs"
proof -
  have "\<forall>f\<in>set fs. fingerprint_text (dict_get a f) = fingerprint_text (dict_get b f)"
  proof
    fix f assume "f \<in> set fs"
    with assms(2) have "dict_get a f = dict_get b f
           \<or> (is_composite (dict_get a f) \<and> is_composite (dict_get b f)
              \<and> json_dumps (dict_get a f) = json_dumps (dict_get b f))" ..
    then show "fingerprint_text (dict_get a f) = fingerprint_text (dict_get b f)"
      by (auto simp: fingerprint_text_composite simp del: json_dumps.simps)
  qed
  then have "fingerprint_update a [] fs = fingerprint_update b [] fs"
    by (rule fingerprint_update_same_text)
  with assms(1) show ?thesis
    by (simp add: get_alert_fingerprint_def)
qed

theorem get_alert_fingerprint_same_serialization_witness:
  "[''labels'', ''service''] \<noteq> []
   \<and> is_composite (dict_get [(''name'', PStr ''cpu high''),
        (''labels'', PDict [(''a'', PInt 1), (''b'', PInt 2)])] ''labels'')
   \<and> is_composite (dict_get [(''name'', PStr ''disk full''),
        (''labels'', PDict [(''a'', PInt 1), (''b'', PInt 2)]), (''service'', PNone)] ''labels'')
   \<and> json_dumps (dict_get [(''name'', PStr ''cpu high''),
        (''labels'', PDict [(''a'', PInt 1), (''b'', PInt 2)])] ''labels'')
     = json_dumps (dict_get [(''name'', PStr ''disk full''),
        (''labels'', PDict [(''a'', PInt 1), (''b'', PInt 2)]), (''service'', PNone)] ''labels'')
   \<and> dict_get [(''name'', PStr ''cpu high''),
        (''labels'', PDict [(''a'', PInt 1), (''b'', PInt 2)])] ''service''
     = dict_get [(''name'', PStr ''disk full''),
        (''labels'', PDict [(''a'', PInt 1), (''b'', PInt 2)]), (''service'', PNone)] ''service''
   \<and> get_alert_fingerprint
        [(''name'', PStr ''cpu high''), (''labels'', PDict [(''a'', PInt 1), (''b'', PInt 2)])]
        [''labels'', ''service'']
     = get_alert_fingerprint
        [(''name'', PStr ''disk full''), (''labels'', PDict [(''a'', PInt 1), (''b'', PInt 2)]),
         (''service'', PNone)]
        [''labels'', ''service'']"
proof -
  have nonempty: "[''labels'', ''service''] \<noteq> []"
    by simp
  have hyp: "\<forall>f\<in>set [''labels'', ''service''].
        dict_get [(''name'', PStr ''cpu high''), (''labels'', PDict [(''a'', PInt 1), (''b'', PInt 2)])] f
        = dict_get [(''name'', PStr ''disk full''), (''labels'', PDict [(''a'', PInt 1), (''b'', PInt 2)]),
                    (''service'', PNone)] f
        \<or> (is_composite (dict_get [(''name'', PStr ''cpu high''),
                (''labels'', PDict [(''a'', PInt 1), (''b'', PInt 2)])] f)
           \<and> is_composite (dict_get [(''name'', PStr ''disk full''),
                (''labels'', PDict [(''a'', PInt 1), (''b'', PInt 2)]), (''service'', PNone)] f)
           \<and> json_dumps (dict_get [(''name'', PStr ''cpu high''),
                (''labels'', PDict [(''a'', PInt 1), (''b'', PInt 2)])] f)
             = json_dumps (dict_get [(''name'', PStr ''disk full''),
                (''labels'', PDict [(''a'', PInt 1), (''b'', PInt 2)]), (''service'', PNone)] f))"
    by (simp add: dict_get_def)
  from get_alert_fingerprint_same_serialization [OF nonempty hyp]
  show ?thesis by (simp add: dict_get_def)
qed

section \<open>Properties of the enrichment\<close>

lemma extract_fingerprint_tiers:
  assumes "extract_fingerprint cm results = Inr fp" and "py_truthy fp"
  shows "if py_in ''fingerprint'' results = Inr True
           then subscript results ''fingerprint'' = Inr fp
         else if ctx_truthy (foreach_value cm)
           then ctx_get (untuple (foreach_value cm)) ''fingerprint'' = Inr fp
         else ctx_truthy (event_context cm) \<and> event_fingerprint (event_context cm) = Inr fp"
  using assms
  by (auto simp: extract_fingerprint_def split: sum.splits bool.splits if_splits)

lemma enrich_alert_store_call:
  assumes "provider_enrich_alert db cm ens results calls = (out, calls')" and "calls' \<noteq> calls"
  shows "\<exists>fp. extract_fingerprint cm results = Inr fp \<and> py_truthy fp
           \<and> calls' = calls @ [(tenant_id cm, fp, compute_enrichments results [] ens)]"
  using assms
  by (auto simp: provider_enrich_alert_def Let_def split: sum.splits if_splits option.splits)

lemma enrich_alert_with:
  assumes "extract_fingerprint cm results = Inr fp" and "py_truthy fp"
  shows "provider_enrich_alert db cm ens results calls
         = ((case db (tenant_id cm) fp (compute_enrichments results [] ens) of
               Some e \<Rightarrow> Inl e | None \<Rightarrow> Inr ()),
            calls @ [(tenant_id cm, fp, compute_enrichments results [] ens)])"
  using assms by (simp add: provider_enrich_alert_def Let_def split: option.splits)

lemma enrich_alert_without:
  assumes "\<not> (\<exists>fp. extract_fingerprint cm results = Inr fp \<and> py_truthy fp)"
  shows "\<exists>e. provider_enrich_alert db cm ens results calls = (Inl e, calls)"
proof (cases "extract_fingerprint cm results")
  case (Inl e)
  then show ?thesis by (simp add: provider_enrich_alert_def)
next
  case (Inr fp)
  with assms have "\<not> py_truthy fp" by simp
  with Inr show ?thesis by (simp add: provider_enrich_alert_def)
qed

lemma extract_tier1:
  "py_in ''fingerprint'' results = Inr True
   \<Longrightarrow> extract_fingerprint cm results = subscript results ''fingerprint''"
  by (simp add: extract_fingerprint_def)

lemma extract_tier2:
  "py_in ''fingerprint'' results = Inr False \<Longrightarrow> ctx_truthy (foreach_value cm)
   \<Longrightarrow> extract_fingerprint cm results = ctx_get (untuple (foreach_value cm)) ''fingerprint''"
  by (simp add: extract_fingerprint_def)

lemma extract_tier3:
  "py_in ''fingerprint'' results = Inr False \<Longrightarrow> \<not> ctx_truthy (foreach_value cm)
   \<Longrightarrow> ctx_truthy (event_context cm)
   \<Longrightarrow> extract_fingerprint cm results = event_fingerprint (event_context cm)"
  by (simp add: extract_fingerprint_def)

text \<open>
  C6. The fingerprint comes from three places, in this order. If the results have a
  \<^verbatim>\<open>fingerprint\<close> entry, that entry is used. Otherwise, if the foreach context has a
  value, the \<^verbatim>\<open>fingerprint\<close> of that value is used, of its first element when it is a
  tuple. Otherwise, if there is an event context, its fingerprint is used. Whenever the
  place that is used yields a non-empty fingerprint, the enrichment store is called once
  with it, whatever the later places hold. Whenever it yields nothing, \<^verbatim>\<open>None\<close>, an
  empty value or an exception, and whenever there is no place at all, \<^verbatim>\<open>_enrich_alert\<close>
  raises and the store is not called; the later places are not tried. The store is never
  called in any other way.
\<close>

theorem enrich_alert_fingerprint_tiers:
  "(py_in ''fingerprint'' results = Inl e
      \<longrightarrow> provider_enrich_alert db cm ens results calls = (Inl e, calls))
   \<and> (py_in ''fingerprint'' results = Inr True
        \<and> subscript results ''fingerprint'' = Inr fp \<and> py_truthy fp
      \<longrightarrow> provider_enrich_alert db cm ens results calls
          = ((case db (tenant_id cm) fp (compute_enrichments results [] ens) of
                Some e \<Rightarrow> Inl e | None \<Rightarrow> Inr ()),
             calls @ [(tenant_id cm, fp, compute_enrichments results [] ens)]))
   \<and> (py_in ''fingerprint'' results = Inr True
        \<and> \<not> (\<exists>fp. subscript results ''fingerprint'' = Inr fp \<and> py_truthy fp)
      \<longrightarrow> (\<exists>e. provider_enrich_alert db cm ens results calls = (Inl e, calls)))
   \<and> (py_in ''fingerprint'' results = Inr False \<and> ctx_truthy (foreach_value cm)
        \<and> ctx_get (untuple (foreach_value cm)) ''fingerprint'' = Inr fp \<and> py_truthy fp
      \<longrightarrow> provider_enrich_alert db cm ens results calls
          = ((case db (tenant_id cm) fp (compute_enrichments results [] ens) of
                Some e \<Rightarrow> Inl e | None \<Rightarrow> Inr ()),
             calls @ [(tenant_id cm, fp, compute_enrichments results [] ens)]))
   \<and> (py_in ''fingerprint'' results = Inr False \<and> ctx_truthy (foreach_value cm)
        \<and> \<not> (\<exists>fp. ctx_get (untuple (foreach_value cm)) ''fingerprint'' = Inr fp \<and> py_truthy fp)
      \<longrightarrow> (\<exists>e. provider_enrich_alert db cm ens results calls = (Inl e, calls)))
   \<and> (py_in ''fingerprint'' results = Inr False \<and> \<not> ctx_truthy (foreach_value cm)
        \<and> ctx_truthy (event_context cm)
        \<and> event_fingerprint (event_context cm) = Inr fp \<and> py_truthy fp
      \<longrightarrow> provider_enrich_alert db cm ens results calls
          = ((case db (tenant_id cm) fp (compute_enrichments results [] ens) of
                Some e \<Rightarrow> Inl e | None \<Rightarrow> Inr ()),
             calls @ [(tenant_id cm, fp, compute_enrichments results [] ens)]))
   \<and> (py_in ''fingerprint'' results = Inr False \<and> \<not> ctx_truthy (foreach_value cm)
        \<and> ctx_truthy (event_context cm)
        \<and> \<not> (\<exists>fp. event_fingerprint (event_context cm) = Inr fp \<and> py_truthy fp)
      \<longrightarrow> (\<exists>e. provider_enrich_alert db cm ens results calls = (Inl e, calls)))
   \<and> (py_in ''fingerprint'' results = Inr False \<and> \<not> ctx_truthy (foreach_value cm)
        \<and> \<not> ctx_truthy (event_context cm)
      \<longrightarrow> provider_enrich_alert db cm ens results calls = (Inl NoFingerprintFound, calls))
   \<and> (provider_enrich_alert db cm ens results calls = (out, calls') \<and> calls' \<noteq> calls
      \<longrightarrow> (\<exists>fp. py_truthy fp
             \<and> calls' = calls @ [(tenant_id cm, fp, compute_enrichments results [] ens)]
             \<and> (if py_in ''fingerprint'' results = Inr True
                   then subscript results ''fingerprint'' = Inr fp
                 else if ctx_truthy (foreach_value cm)
                   then ctx_get (untuple (foreach_value cm)) ''fingerprint'' = Inr fp
                 else ctx_truthy (event_context cm)
                      \<and> event_fingerprint (event_context cm) = Inr fp)))"
proof (intro conjI impI)
  assume "py_in ''fingerprint'' results = Inl e"
  then show "provider_enrich_alert db cm ens results calls = (Inl e, calls)"
    by (simp add: provider_enrich_alert_def extract_fingerprint_def)
next
  assume "py_in ''fingerprint'' results = Inr True
        \<and> subscript results ''fingerprint'' = Inr fp \<and> py_truthy fp"
  then have "extract_fingerprint cm results = Inr fp" "py_truthy fp"
    by (simp_all add: extract_tier1)
  then show "provider_enrich_alert db cm ens results calls
          = ((case db (tenant_id cm) fp (compute_enrichments results [] ens) of
                Some e \<Rightarrow> Inl e | None \<Rightarrow> Inr ()),
             calls @ [(tenant_id cm, fp, compute_enrichments results [] ens)])"
    by (rule enrich_alert_with)
next
  assume "py_in ''fingerprint'' results = Inr True
        \<and> \<not> (\<exists>fp. subscript results ''fingerprint'' = Inr fp \<and> py_truthy fp)"
  then have "\<not> (\<exists>fp. extract_fingerprint cm results = Inr fp \<and> py_truthy fp)"
    by (simp add: extract_tier1)
  then show "\<exists>e. provider_enrich_alert db cm ens results calls = (Inl e, calls)"
    by (rule enrich_alert_without)
next
  assume "py_in ''fingerprint'' results = Inr False \<and> ctx_truthy (foreach_value cm)
        \<and> ctx_get (untuple (foreach_value cm)) ''fingerprint'' = Inr fp \<and> py_truthy fp"
  then have "extract_fingerprint cm results = Inr fp" "py_truthy fp"
    by (simp_all add: extract_tier2)
  then show "provider_enrich_alert db cm ens results calls
          = ((case db (tenant_id cm) fp (compute_enrichments results [] ens) of
                Some e \<Rightarrow> Inl e | None \<Rightarrow> Inr ()),
             calls @ [(tenant_id cm, fp, compute_enrichments results [] ens)])"
    by (rule enrich_alert_with)
next
  assume "py_in ''fingerprint'' results = Inr False \<and> ctx_truthy (foreach_value cm)
        \<and> \<not> (\<exists>fp. ctx_get (untuple (foreach_value cm)) ''fingerprint'' = Inr fp \<and> py_truthy fp)"
  then have "\<not> (\<exists>fp. extract_fingerprint cm results = Inr fp \<and> py_truthy fp)"
    by (simp add: extract_tier2)
  then show "\<exists>e. provider_enrich_alert db cm ens results calls = (Inl e, calls)"
    by (rule enrich_alert_without)
next
  assume "py_in ''fingerprint'' results = Inr False \<and> \<not> ctx_truthy (foreach_value cm)
        \<and> ctx_truthy (event_context cm)
        \<and> event_fingerprint (event_context cm) = Inr fp \<and> py_truthy fp"
  then have "extract_fingerprint cm results = Inr fp" "py_truthy fp"
    by (simp_all add: extract_tier3)
  then show "provider_enrich_alert db cm ens results calls
          = ((case db (tenant_id cm) fp (compute_enrichments results [] ens) of
                Some e \<Rightarrow> Inl e | None \<Rightarrow> Inr ()),
             calls @ [(tenant_id cm, fp, compute_enrichments results [] ens)])"
    by (rule enrich_alert_with)
next
  assume "py_in ''fingerprint'' results = Inr False \<and> \<not> ctx_truthy (foreach_value cm)
        \<and> ctx_truthy (event_context cm)
        \<and> \<not> (\<exists>fp. event_fingerprint (event_context cm) = Inr fp \<and> py_truthy fp)"
  then have "\<not> (\<exists>fp. extract_fingerprint cm results = Inr fp \<and> py_truthy fp)"
    by (simp add: extract_tier3)
  then show "\<exists>e. provider_enrich_alert db cm ens results calls = (Inl e, calls)"
    by (rule enrich_alert_without)
next
  assume "py_in ''fingerprint'' results = Inr False \<and> \<not> ctx_truthy (foreach_value cm)
        \<and> \<not> ctx_truthy (event_context cm)"
  then show "provider_enrich_alert db cm ens results calls = (Inl NoFingerprintFound, calls)"
    by (simp add: provider_enrich_alert_def extract_fingerprint_def)
next
  assume run: "provider_enrich_alert db cm ens results calls = (out, calls') \<and> calls' \<noteq> calls"
  then obtain fp where fp: "extract_fingerprint cm results = Inr fp" "py_truthy fp"
    and call: "calls' = calls @ [(tenant_id cm, fp, compute_enrichments results [] ens)]"
    using enrich_alert_store_call [of db cm ens results calls out calls'] by blast
  from extract_fingerprint_tiers [OF fp] fp(2) call
  show "\<exists>fp. py_truthy fp
             \<and> calls' = calls @ [(tenant_id cm, fp, compute_enrichments results [] ens)]
             \<and> (if py_in ''fingerprint'' results = Inr True
                   then subscript results ''fingerprint'' = Inr fp
                 else if ctx_truthy (foreach_value cm)
                   then ctx_get (untuple (foreach_value cm)) ''fingerprint'' = Inr fp
                 else ctx_truthy (event_context cm)
                      \<and> event_fingerprint (event_context cm) = Inr fp)"
    by blast
qed

lemmas enrich_examples =
  store_accepts_def one_instruction_def results_with_fingerprint_def
  results_without_fingerprint_def results_empty_fingerprint_def zipped_context_def
  foreach_without_fingerprint_def event_alert_context_def event_dict_context_def
  empty_context_def foreach_value_def enrichment_binding_def bind_key_def dict_get_def
  getattr_def

text \<open>
  Eight runs, one for each place and each way to fail. With a fingerprint r in the
  results the store is called with r, although the zipped foreach context has f and the
  event context has e. Without one in the results it is called with f, the fingerprint of
  the first element of the tuple. Without a foreach value it is called with the
  fingerprint of the event context, an alert (e) or a dictionary (d). The call raises and
  the store is not called: with an empty fingerprint in the results, although the
  contexts have one; with a foreach value that has none, although the event context has
  one; with no context at all; and with results that are \<^verbatim>\<open>None\<close>.
\<close>

theorem enrich_alert_fingerprint_tiers_witness:
  "py_in ''fingerprint'' results_with_fingerprint = Inr True
   \<and> subscript results_with_fingerprint ''fingerprint'' = Inr (PStr ''r'')
   \<and> provider_enrich_alert store_accepts zipped_context one_instruction
         results_with_fingerprint []
       = (Inr (), [(''t1'', PStr ''r'', [(PStr ''x'', PStr ''y'')])])
   \<and> py_in ''fingerprint'' results_without_fingerprint = Inr False
   \<and> ctx_truthy (foreach_value zipped_context)
   \<and> ctx_get (untuple (foreach_value zipped_context)) ''fingerprint'' = Inr (PStr ''f'')
   \<and> provider_enrich_alert store_accepts zipped_context one_instruction
         results_without_fingerprint []
       = (Inr (), [(''t1'', PStr ''f'', [(PStr ''x'', PStr ''y'')])])
   \<and> \<not> ctx_truthy (foreach_value event_alert_context)
   \<and> ctx_truthy (event_context event_alert_context)
   \<and> event_fingerprint (event_context event_alert_context) = Inr (PStr ''e'')
   \<and> provider_enrich_alert store_accepts event_alert_context one_instruction
         results_without_fingerprint []
       = (Inr (), [(''t1'', PStr ''e'', [(PStr ''x'', PStr ''y'')])])
   \<and> \<not> ctx_truthy (foreach_value event_dict_context)
   \<and> ctx_truthy (event_context event_dict_context)
   \<and> event_fingerprint (event_context event_dict_context) = Inr (PStr ''d'')
   \<and> provider_enrich_alert store_accepts event_dict_context one_instruction
         results_without_fingerprint []
       = (Inr (), [(''t1'', PStr ''d'', [(PStr ''x'', PStr ''y'')])])
   \<and> py_in ''fingerprint'' results_empty_fingerprint = Inr True
   \<and> \<not> (\<exists>fp. subscript results_empty_fingerprint ''fingerprint'' = Inr fp \<and> py_truthy fp)
   \<and> (\<exists>e. provider_enrich_alert store_accepts zipped_context one_instruction
              results_empty_fingerprint [] = (Inl e, []))
   \<and> ctx_truthy (foreach_value foreach_without_fingerprint)
   \<and> \<not> (\<exists>fp. ctx_get (untuple (foreach_value foreach_without_fingerprint)) ''fingerprint''
                = Inr fp \<and> py_truthy fp)
   \<and> (\<exists>e. provider_enrich_alert store_accepts foreach_without_fingerprint one_instruction
              results_without_fingerprint [] = (Inl e, []))
   \<and> \<not> ctx_truthy (foreach_value empty_context)
   \<and> \<not> ctx_truthy (event_context empty_context)
   \<and> provider_enrich_alert store_accepts empty_context one_instruction
         results_without_fingerprint [] = (Inl NoFingerprintFound, [])
   \<and> py_in ''fingerprint'' PNone = Inl TypeError
   \<and> provider_enrich_alert store_accepts zipped_context one_instruction PNone []
       = (Inl TypeError, [])"
proof -
  note tiers = enrich_alert_fingerprint_tiers
    [where db = store_accepts and ens = one_instruction and calls = "[]"]
  have enr: "\<And>results. compute_enrichments results [] one_instruction = [(PStr ''x'', PStr ''y'')]"
    by (simp add: enrich_examples)
  have accepts: "\<And>t fp enr. store_accepts t fp enr = None"
    by (simp add: store_accepts_def)
  have h1: "py_in ''fingerprint'' results_with_fingerprint = Inr True"
    "subscript results_with_fingerprint ''fingerprint'' = Inr (PStr ''r'')"
    by (simp_all add: enrich_examples)
  with tiers [where cm = zipped_context and results = results_with_fingerprint
      and fp = "PStr ''r''"]
  have r1: "provider_enrich_alert store_accepts zipped_context one_instruction
         results_with_fingerprint []
       = (Inr (), [(''t1'', PStr ''r'', [(PStr ''x'', PStr ''y'')])])"
    by (simp add: enr accepts zipped_context_def)
  have h0: "py_in ''fingerprint'' results_without_fingerprint = Inr False"
    by (simp add: enrich_examples)
  have h2: "ctx_truthy (foreach_value zipped_context)"
    "ctx_get (untuple (foreach_value zipped_context)) ''fingerprint'' = Inr (PStr ''f'')"
    by (simp_all add: enrich_examples)
  with h0 tiers [where cm = zipped_context and results = results_without_fingerprint
      and fp = "PStr ''f''"]
  have r2: "provider_enrich_alert store_accepts zipped_context one_instruction
         results_without_fingerprint []
       = (Inr (), [(''t1'', PStr ''f'', [(PStr ''x'', PStr ''y'')])])"
    by (simp add: enr accepts zipped_context_def)
  have h3: "\<not> ctx_truthy (foreach_value event_alert_context)"
    "ctx_truthy (event_context event_alert_context)"
    "event_fingerprint (event_context event_alert_context) = Inr (PStr ''e'')"
    by (simp_all add: enrich_examples)
  with h0 tiers [where cm = event_alert_context and results = results_without_fingerprint
      and fp = "PStr ''e''"]
  have r3: "provider_enrich_alert store_accepts event_alert_context one_instruction
         results_without_fingerprint []
       = (Inr (), [(''t1'', PStr ''e'', [(PStr ''x'', PStr ''y'')])])"
    by (simp add: enr accepts event_alert_context_def)
  have h4: "\<not> ctx_truthy (foreach_value event_dict_context)"
    "ctx_truthy (event_context event_dict_context)"
    "event_fingerprint (event_context event_dict_context) = Inr (PStr ''d'')"
    by (simp_all add: enrich_examples)
  with h0 tiers [where cm = event_dict_context and results = results_without_fingerprint
      and fp = "PStr ''d''"]
  have r4: "provider_enrich_alert store_accepts event_dict_context one_instruction
         results_without_fingerprint []
       = (Inr (), [(''t1'', PStr ''d'', [(PStr ''x'', PStr ''y'')])])"
    by (simp add: enr accepts event_dict_context_def)
  have h5: "py_in ''fingerprint'' results_empty_fingerprint = Inr True"
    "\<not> (\<exists>fp. subscript results_empty_fingerprint ''fingerprint'' = Inr fp \<and> py_truthy fp)"
    by (auto simp: enrich_examples)
  with tiers [where cm = zipped_context and results = results_empty_fingerprint]
  have r5: "\<exists>e. provider_enrich_alert store_accepts zipped_context one_instruction
              results_empty_fingerprint [] = (Inl e, [])"
    by blast
  have h6: "ctx_truthy (foreach_value foreach_without_fingerprint)"
    "\<not> (\<exists>fp. ctx_get (untuple (foreach_value foreach_without_fingerprint)) ''fingerprint''
                = Inr fp \<and> py_truthy fp)"
    by (auto simp: enrich_examples)
  with h0 tiers [where cm = foreach_without_fingerprint and results = results_without_fingerprint]
  have r6: "\<exists>e. provider_enrich_alert store_accepts foreach_without_fingerprint one_instruction
              results_without_fingerprint [] = (Inl e, [])"
    by blast
  have h7: "\<not> ctx_truthy (foreach_value empty_context)"
    "\<not> ctx_truthy (event_context empty_context)"
    by (simp_all add: enrich_examples)
  with h0 tiers [where cm = empty_context and results = results_without_fingerprint]
  have r7: "provider_enrich_alert store_accepts empty_context one_instruction
         results_without_fingerprint [] = (Inl NoFingerprintFound, [])"
    by blast
  have h8: "py_in ''fingerprint'' PNone = Inl TypeError"
    by simp
  with tiers [where cm = zipped_context and results = PNone and e = TypeError]
  have r8: "provider_enrich_alert store_accepts zipped_context one_instruction PNone []
       = (Inl TypeError, [])"
    by blast
  from h0 h1 h2 h3 h4 h5 h6 h7 h8 r1 r2 r3 r4 r5 r6 r7 r8 show ?thesis
    by (intro conjI)
qed

text \<open>
  C4, at the instruction \<^verbatim>\<open>{key: "x", value: "results.results.a"}\<close> with the results
  \<^verbatim>\<open>{"results": {"a": 1}, "a": 2}\<close>: the remainder of the value after the prefix is the
  path \<^verbatim>\<open>results.a\<close>, which leads to 1, but \<^verbatim>\<open>str.replace\<close> removes every
  occurrence of \<^verbatim>\<open>results.\<close>, the path walked is \<^verbatim>\<open>a\<close>, and the key is bound to 2.
\<close>

theorem compute_enrichments_removes_every_prefix:
  "compute_enrichments (PDict [(''results'', PDict [(''a'', PInt 1)]), (''a'', PInt 2)]) []
     [PDict [(''key'', PStr ''x''), (''value'', PStr ''results.results.a'')]]
   = [(PStr ''x'', PInt 2)]
   \<and> walk (PDict [(''results'', PDict [(''a'', PInt 1)]), (''a'', PInt 2)])
        (split_on CHR ''.'' (drop (length ''results.'') ''results.results.a''))
     = Inr (PInt 1)"
  by (simp add: enrichment_binding_def bind_key_def)

section \<open>Properties of the push\<close>

text \<open>
  C1, at the text \<^verbatim>\<open>not json\<close>: it is not a mapping and \<^verbatim>\<open>json.loads\<close> rejects it, and
  \<^verbatim>\<open>_push_alert\<close> raises \<^verbatim>\<open>UnboundLocalError\<close> instead of dismissing the alert with a
  warning. No alert is built and nothing is posted.
\<close>

theorem push_alert_not_json_raises:
  "json_loads (decode_value env) (PStr ''not json'') = Inl JSONDecodeError
   \<and> push_alert env (PStr ''not json'') posts = (Inl UnboundLocalError, posts)"
  by (simp add: push_alert_def to_alert_data_def json_expecting_value_def is_json_space_def
      is_ascii_digit_def)

section \<open>Properties of the grouping\<close>

lemma map_of_set_attr: "map_of (set_attr a k v) k' = (if k' = k then Some v else map_of a k')"
  by (induction a) auto

lemma getattr_set_attr_other: "k' \<noteq> k \<Longrightarrow> getattr (set_attr a k v) k' = getattr a k'"
  by (simp add: getattr_def map_of_set_attr)

lemma stamp_provider_fingerprint:
  "getattr (stamp_provider pid h as a) ''fingerprint'' = getattr (h a) ''fingerprint''"
  by (induction as arbitrary: h) (simp_all add: getattr_set_attr_other)

lemma attr_keys_map:
  "\<forall>a\<in>set as. getattr (h a) ''fingerprint'' = Inr (f a)
   \<Longrightarrow> attr_keys h as = Inr (map (\<lambda>a. (f a, a)) as)"
  by (induction as) simp_all

lemma groupby_Nil_iff: "groupby ps = [] \<longleftrightarrow> ps = []"
  by (induction ps rule: groupby.induct) (auto split: list.splits)

lemma groupby_concat: "concat (map snd (groupby ps)) = map snd ps"
  by (induction ps rule: groupby.induct) (auto split: list.splits)

lemma groupby_hd: "ps \<noteq> [] \<Longrightarrow> fst (hd (groupby ps)) = fst (hd ps)"
  by (induction ps rule: groupby.induct) (auto split: list.splits)

lemma key_norm_str: "is_str k \<Longrightarrow> is_str k' \<Longrightarrow> key_norm k = key_norm k' \<longleftrightarrow> k = k'"
  by (cases k; cases k') simp_all

lemma str_key_inj: "is_str k \<Longrightarrow> is_str k' \<Longrightarrow> str_key k = str_key k' \<longleftrightarrow> k = k'"
  by (cases k; cases k') simp_all

lemma groupby_keys:
  "\<forall>p\<in>set ps. is_str (fst p) \<Longrightarrow> set (map fst (groupby ps)) = set (map fst ps)"
proof (induction ps rule: groupby.induct)
  case 1
  then show ?case by simp
next
  case (2 k x ps)
  show ?case
  proof (cases "groupby ps")
    case Nil
    then have "ps = []" by (simp add: groupby_Nil_iff)
    with Nil show ?thesis by simp
  next
    case (Cons kg rest)
    obtain k' g where kg: "kg = (k', g)" by (cases kg)
    from 2 have ih: "set (map fst (groupby ps)) = set (map fst ps)" by simp
    from Cons kg have "k' \<in> set (map fst (groupby ps))" by simp
    with ih have "k' \<in> set (map fst ps)" by simp
    with 2(2) have "is_str k'" by auto
    moreover from 2(2) have "is_str k" by simp
    ultimately have eq: "key_norm k = key_norm k' \<longleftrightarrow> k = k'"
      by (simp add: key_norm_str)
    from ih Cons kg show ?thesis
      by (auto simp: eq)
  qed
qed

lemma groupby_members:
  "\<forall>p\<in>set ps. is_str (fst p) \<Longrightarrow> (k, g) \<in> set (groupby ps) \<Longrightarrow> x \<in> set g
   \<Longrightarrow> (k, x) \<in> set ps"
proof (induction ps arbitrary: k g rule: groupby.induct)
  case 1
  then show ?case by simp
next
  case (2 k0 x0 ps)
  show ?case
  proof (cases "groupby ps")
    case Nil
    with 2 show ?thesis by simp
  next
    case (Cons kg rest)
    obtain k' g' where kg: "kg = (k', g')" by (cases kg)
    from 2(2) have strs: "\<forall>p\<in>set ps. is_str (fst p)" by simp
    have ih: "\<And>k g. (k, g) \<in> set (groupby ps) \<Longrightarrow> x \<in> set g \<Longrightarrow> (k, x) \<in> set ps"
      using 2(1) strs by blast
    from Cons kg have "k' \<in> set (map fst (groupby ps))" by simp
    with groupby_keys [OF strs] have "k' \<in> set (map fst ps)" by simp
    with strs have "is_str k'" by auto
    moreover from 2(2) have "is_str k0" by simp
    ultimately have eq: "key_norm k0 = key_norm k' \<longleftrightarrow> k0 = k'"
      by (simp add: key_norm_str)
    show ?thesis
    proof (cases "k0 = k'")
      case True
      with Cons kg eq have gb: "groupby ((k0, x0) # ps) = (k0, x0 # g') # rest" by simp
      from 2(3) gb have "(k, g) = (k0, x0 # g') \<or> (k, g) \<in> set rest" by simp
      then show ?thesis
      proof
        assume "(k, g) = (k0, x0 # g')"
        with 2(4) have "k = k0" "x = x0 \<or> x \<in> set g'" by auto
        moreover have "x \<in> set g' \<Longrightarrow> (k', x) \<in> set ps"
          using ih [of k' g'] Cons kg by simp
        ultimately show ?thesis using True by auto
      next
        assume "(k, g) \<in> set rest"
        with Cons have "(k, g) \<in> set (groupby ps)" by simp
        with ih 2(4) show ?thesis by auto
      qed
    next
      case False
      with Cons kg eq have gb: "groupby ((k0, x0) # ps) = (k0, [x0]) # (k', g') # rest" by simp
      from 2(3) gb Cons kg have "(k, g) = (k0, [x0]) \<or> (k, g) \<in> set (groupby ps)" by auto
      then show ?thesis
      proof
        assume "(k, g) = (k0, [x0])"
        with 2(4) show ?thesis by simp
      next
        assume "(k, g) \<in> set (groupby ps)"
        with ih 2(4) show ?thesis by auto
      qed
    qed
  qed
qed

lemma groupby_distinct:
  "\<forall>p\<in>set ps. is_str (fst p) \<Longrightarrow> sorted (map (\<lambda>p. str_key (fst p)) ps)
   \<Longrightarrow> distinct (map fst (groupby ps))"
proof (induction ps rule: groupby.induct)
  case 1
  then show ?case by simp
next
  case (2 k0 x0 ps)
  from 2(2) have strs: "\<forall>p\<in>set ps. is_str (fst p)" and k0: "is_str k0" by simp_all
  from 2(3) have srt: "sorted (map (\<lambda>p. str_key (fst p)) ps)"
    and low: "\<forall>p\<in>set ps. str_key k0 \<le> str_key (fst p)" by simp_all
  from 2(1) strs srt have ih: "distinct (map fst (groupby ps))" by simp
  show ?case
  proof (cases "groupby ps")
    case Nil
    then show ?thesis by simp
  next
    case (Cons kg rest)
    obtain k' g' where kg: "kg = (k', g')" by (cases kg)
    from Cons have ne: "ps \<noteq> []" by (auto simp: groupby_Nil_iff)
    from groupby_hd [OF ne] Cons kg have hd: "fst (hd ps) = k'" by simp
    from ne hd strs have k': "is_str k'" by (cases ps) auto
    from k0 k' have eq: "key_norm k0 = key_norm k' \<longleftrightarrow> k0 = k'"
      by (simp add: key_norm_str)
    show ?thesis
    proof (cases "k0 = k'")
      case True
      with Cons kg eq ih show ?thesis by simp
    next
      case False
      have "k0 \<notin> set (map fst ps)"
      proof
        assume "k0 \<in> set (map fst ps)"
        from srt ne hd have "\<forall>p\<in>set ps. str_key k' \<le> str_key (fst p)"
          by (cases ps) auto
        with \<open>k0 \<in> set (map fst ps)\<close> have "str_key k' \<le> str_key k0" by auto
        moreover from low ne hd have "str_key k0 \<le> str_key k'" by (cases ps) auto
        ultimately have "str_key k0 = str_key k'" by simp
        with k0 k' have "k0 = k'" by (simp add: str_key_inj)
        with False show False by simp
      qed
      with groupby_keys [OF strs] have "k0 \<notin> set (map fst (groupby ps))" by simp
      with Cons kg eq False ih show ?thesis by simp
    qed
  qed
qed

lemma dict_set_fresh:
  "key_norm k \<notin> set (map (\<lambda>p. key_norm (fst p)) d) \<Longrightarrow> dict_set d k v = d @ [(k, v)]"
  by (induction d) auto

lemma build_dict_distinct:
  "\<forall>p\<in>set gs. hashable (fst p) \<Longrightarrow> distinct (map (\<lambda>p. key_norm (fst p)) (d @ gs))
   \<Longrightarrow> build_dict d gs = Inr (d @ gs)"
proof (induction gs arbitrary: d)
  case Nil
  then show ?case by simp
next
  case (Cons kg gs)
  obtain k g where kg: "kg = (k, g)" by (cases kg)
  from Cons(3) kg have fresh: "key_norm k \<notin> set (map (\<lambda>p. key_norm (fst p)) d)" by auto
  then have ds: "dict_set d k g = d @ [(k, g)]" by (rule dict_set_fresh)
  from Cons(3) kg have "distinct (map (\<lambda>p. key_norm (fst p)) ((d @ [(k, g)]) @ gs))" by simp
  with Cons(1) [of "d @ [(k, g)]"] Cons(2) have "build_dict (d @ [(k, g)]) gs = Inr ((d @ [(k, g)]) @ gs)"
    by simp
  with Cons(2) kg ds show ?case by simp
qed

lemma py_sorted_str:
  assumes "\<forall>p\<in>set ps. is_str (fst p)"
  shows "py_sorted ps = Inr (sort_key (\<lambda>p. str_key (fst p)) ps)"
proof (cases "length ps \<le> 1")
  case True
  then have "sort_key (\<lambda>p. str_key (fst p)) ps = ps"
    by (cases ps; cases "tl ps") auto
  with True show ?thesis by (simp add: py_sorted_def)
next
  case False
  with assms show ?thesis by (simp add: py_sorted_def list_all_iff)
qed

lemma group_by_fingerprint_str:
  assumes keys: "\<forall>a\<in>set as. getattr (h a) ''fingerprint'' = Inr (PStr (f a))"
  shows "\<exists>grouped. group_by_fingerprint h as = Inr grouped
           \<and> distinct (map fst grouped)
           \<and> set (map fst grouped) = (\<lambda>a. PStr (f a)) ` set as
           \<and> mset (concat (map snd grouped)) = mset as
           \<and> (\<forall>(k, g)\<in>set grouped. \<forall>a\<in>set g. getattr (h a) ''fingerprint'' = Inr k)"
proof -
  define ps where "ps = map (\<lambda>a. (PStr (f a), a)) as"
  define sps where "sps = sort_key (\<lambda>p. str_key (fst p)) ps"
  define grouped where "grouped = groupby sps"
  have ak: "attr_keys h as = Inr ps"
    unfolding ps_def using keys by (rule attr_keys_map)
  have strs: "\<forall>p\<in>set ps. is_str (fst p)"
    by (auto simp: ps_def)
  then have srt: "py_sorted ps = Inr sps"
    unfolding sps_def by (rule py_sorted_str)
  have sstrs: "\<forall>p\<in>set sps. is_str (fst p)"
    using strs by (simp add: sps_def)
  have sorted: "sorted (map (\<lambda>p. str_key (fst p)) sps)"
    by (simp add: sps_def)
  have dist: "distinct (map fst grouped)"
    unfolding grouped_def using sstrs sorted by (rule groupby_distinct)
  have gkeys: "set (map fst grouped) = set (map fst sps)"
    unfolding grouped_def using sstrs by (rule groupby_keys)
  have hash: "\<forall>p\<in>set grouped. hashable (fst p)"
  proof
    fix p assume "p \<in> set grouped"
    then have "fst p \<in> set (map fst sps)" using gkeys by force
    with sstrs have "is_str (fst p)" by auto
    then show "hashable (fst p)" by (cases "fst p") simp_all
  qed
  have norm: "map (\<lambda>p. key_norm (fst p)) grouped = map fst grouped"
  proof (rule map_cong [OF refl])
    fix p assume "p \<in> set grouped"
    then have "fst p \<in> set (map fst sps)" using gkeys by force
    with sstrs have "is_str (fst p)" by auto
    then show "key_norm (fst p) = fst p" by (cases "fst p") simp_all
  qed
  have "distinct (map (\<lambda>p. key_norm (fst p)) ([] @ grouped))"
    by (simp only: append_Nil norm dist)
  with hash have "build_dict [] grouped = Inr ([] @ grouped)"
    by (rule build_dict_distinct)
  with ak srt have res: "group_by_fingerprint h as = Inr grouped"
    by (simp add: group_by_fingerprint_def grouped_def)
  have keyset: "set (map fst grouped) = (\<lambda>a. PStr (f a)) ` set as"
    using gkeys by (simp add: sps_def ps_def image_image)
  have "mset (map snd sps) = mset (map snd ps)"
    by (simp add: sps_def)
  then have members: "mset (concat (map snd grouped)) = mset as"
    by (simp add: grouped_def groupby_concat ps_def comp_def)
  have own: "\<forall>(k, g)\<in>set grouped. \<forall>a\<in>set g. getattr (h a) ''fingerprint'' = Inr k"
  proof (intro ballI, clarify)
    fix k g a assume "(k, g) \<in> set grouped" "a \<in> set g"
    with groupby_members [OF sstrs] have "(k, a) \<in> set sps" by (simp add: grouped_def)
    then have "(k, a) \<in> set ps" by (simp add: sps_def)
    then have "k = PStr (f a)" "a \<in> set as" by (auto simp: ps_def)
    with keys show "getattr (h a) ''fingerprint'' = Inr k" by simp
  qed
  from res dist keyset members own show ?thesis by blast
qed

lemma dict_lookup_present: "k \<in> set (map fst d) \<Longrightarrow> dict_lookup d k \<noteq> None"
  by (induction d) fastforce+

lemma enrich_alerts_known:
  "\<forall>r. Some r \<in> set recs \<longrightarrow> PStr (alert_fingerprint r) \<in> set (map fst grouped)
   \<Longrightarrow> \<exists>h'. enrich_alerts p grouped h recs = (None, h')"
proof (induction recs arbitrary: h)
  case Nil
  then show ?case by simp
next
  case (Cons r recs)
  show ?case
  proof (cases r)
    case None
    with Cons show ?thesis by simp
  next
    case (Some rec)
    with Cons(2) have "PStr (alert_fingerprint rec) \<in> set (map fst grouped)" by simp
    then obtain g where "dict_lookup grouped (PStr (alert_fingerprint rec)) = Some g"
      using dict_lookup_present by fastforce
    with Some Cons show ?thesis by simp
  qed
qed

lemma get_alerts_by_fingerprint_result:
  assumes "group_by_fingerprint (stamp_provider (provider_id p) (heap w) fetched) fetched = Inr grouped"
    and "get_alerts_by_fingerprint p tenant fetched w = (Inr res, w')"
  shows "res = grouped"
proof (cases "fetched = []")
  case True
  with assms(1) have "grouped = []"
    by (simp add: group_by_fingerprint_def py_sorted_def)
  with True assms(2) show ?thesis
    by (simp add: get_alerts_by_fingerprint_def Let_def)
next
  case False
  with assms show ?thesis
    by (auto simp: get_alerts_by_fingerprint_def Let_def split: sum.splits prod.splits option.splits)
qed

lemma get_alerts_by_fingerprint_returns:
  assumes "group_by_fingerprint (stamp_provider (provider_id p) (heap w) fetched) fetched = Inr grouped"
    and "db_get_enrichments p tenant (map fst grouped) = Inr pulled"
    and "\<forall>r. Some r \<in> set pulled \<longrightarrow> PStr (alert_fingerprint r) \<in> set (map fst grouped)"
  shows "\<exists>w'. get_alerts_by_fingerprint p tenant fetched w = (Inr grouped, w')"
proof (cases "fetched = []")
  case True
  with assms(1) have "grouped = []"
    by (simp add: group_by_fingerprint_def py_sorted_def)
  with True show ?thesis
    by (simp add: get_alerts_by_fingerprint_def Let_def)
next
  case False
  from enrich_alerts_known [OF assms(3)]
  obtain h' where "enrich_alerts p grouped (stamp_provider (provider_id p) (heap w) fetched) pulled = (None, h')"
    by blast
  with False assms(1,2) show ?thesis
    by (simp add: get_alerts_by_fingerprint_def Let_def)
qed

text \<open>
  C3. When every fetched alert carries a string as its fingerprint, the grouping succeeds
  and is a partition of the fetched alerts: the keys are distinct and are exactly the
  fingerprints of the fetched alerts, the groups together hold each fetched alert exactly
  as often as it was fetched, and every alert of a group has the key of the group as its
  fingerprint. This grouping is what \<^verbatim>\<open>get_alerts_by_fingerprint\<close> returns whenever it
  returns, and it does return when the store answers with records of these fingerprints.
\<close>

theorem get_alerts_by_fingerprint_partition:
  assumes "\<forall>a\<in>set fetched. \<exists>s. getattr (heap w a) ''fingerprint'' = Inr (PStr s)"
  shows "\<exists>grouped.
           group_by_fingerprint (stamp_provider (provider_id p) (heap w) fetched) fetched = Inr grouped
         \<and> distinct (map fst grouped)
         \<and> set (map fst grouped) = {k. \<exists>a\<in>set fetched. getattr (heap w a) ''fingerprint'' = Inr k}
         \<and> mset (concat (map snd grouped)) = mset fetched
         \<and> (\<forall>(k, g)\<in>set grouped. \<forall>a\<in>set g. getattr (heap w a) ''fingerprint'' = Inr k)
         \<and> (\<forall>res w'. get_alerts_by_fingerprint p tenant fetched w = (Inr res, w') \<longrightarrow> res = grouped)
         \<and> (\<forall>pulled. db_get_enrichments p tenant (map fst grouped) = Inr pulled
               \<and> (\<forall>r. Some r \<in> set pulled \<longrightarrow> PStr (alert_fingerprint r) \<in> set (map fst grouped))
             \<longrightarrow> (\<exists>w'. get_alerts_by_fingerprint p tenant fetched w = (Inr grouped, w')))"
proof -
  from bchoice [OF assms]
  obtain f where f: "\<forall>a\<in>set fetched. getattr (heap w a) ''fingerprint'' = Inr (PStr (f a))"
    by blast
  let ?h = "stamp_provider (provider_id p) (heap w) fetched"
  have same: "\<And>a. getattr (?h a) ''fingerprint'' = getattr (heap w a) ''fingerprint''"
    by (rule stamp_provider_fingerprint)
  from f have "\<forall>a\<in>set fetched. getattr (?h a) ''fingerprint'' = Inr (PStr (f a))"
    by (simp add: same)
  from group_by_fingerprint_str [OF this]
  obtain grouped where g: "group_by_fingerprint ?h fetched = Inr grouped"
    and dist: "distinct (map fst grouped)"
    and keys: "set (map fst grouped) = (\<lambda>a. PStr (f a)) ` set fetched"
    and members: "mset (concat (map snd grouped)) = mset fetched"
    and own: "\<forall>(k, g)\<in>set grouped. \<forall>a\<in>set g. getattr (?h a) ''fingerprint'' = Inr k"
    by blast
  have keys': "set (map fst grouped) = {k. \<exists>a\<in>set fetched. getattr (heap w a) ''fingerprint'' = Inr k}"
    using keys f by auto
  have own': "\<forall>(k, g)\<in>set grouped. \<forall>a\<in>set g. getattr (heap w a) ''fingerprint'' = Inr k"
    using own by (simp add: same)
  have res: "\<forall>res w'. get_alerts_by_fingerprint p tenant fetched w = (Inr res, w') \<longrightarrow> res = grouped"
    using get_alerts_by_fingerprint_result [OF g] by blast
  have ret: "\<forall>pulled. db_get_enrichments p tenant (map fst grouped) = Inr pulled
               \<and> (\<forall>r. Some r \<in> set pulled \<longrightarrow> PStr (alert_fingerprint r) \<in> set (map fst grouped))
             \<longrightarrow> (\<exists>w'. get_alerts_by_fingerprint p tenant fetched w = (Inr grouped, w'))"
    using get_alerts_by_fingerprint_returns [OF g] by blast
  from g dist keys' members own' res ret show ?thesis by blast
qed

theorem get_alerts_by_fingerprint_partition_witness:
  "getattr (three_alerts 0) ''fingerprint'' = Inr (PStr ''f1'')
   \<and> getattr (three_alerts 1) ''fingerprint'' = Inr (PStr ''f2'')
   \<and> getattr (three_alerts 2) ''fingerprint'' = Inr (PStr ''f1'')
   \<and> fst (get_alerts_by_fingerprint example_provider ''tenant'' [0, 1, 2]
            \<lparr>heap = three_alerts, get_enrichments_calls = []\<rparr>)
       = Inr [(PStr ''f1'', [0, 2]), (PStr ''f2'', [1])]
   \<and> distinct (map fst [(PStr ''f1'', [0, 2 :: addr]), (PStr ''f2'', [1])])
   \<and> mset (concat (map snd [(PStr ''f1'', [0, 2 :: addr]), (PStr ''f2'', [1])])) = mset [0, 1, 2]"
proof -
  let ?w = "\<lparr>heap = three_alerts, get_enrichments_calls = []\<rparr>"
  have fps: "getattr (three_alerts 0) ''fingerprint'' = Inr (PStr ''f1'')"
    "getattr (three_alerts 1) ''fingerprint'' = Inr (PStr ''f2'')"
    "getattr (three_alerts 2) ''fingerprint'' = Inr (PStr ''f1'')"
    by (simp_all add: three_alerts_def getattr_def)
  then have hyp: "\<forall>a\<in>set [0, 1, 2]. \<exists>s. getattr (heap ?w a) ''fingerprint'' = Inr (PStr s)"
    by simp
  from get_alerts_by_fingerprint_partition [OF hyp, of example_provider "''tenant''"]
  obtain grouped where dist: "distinct (map fst grouped)"
    and members: "mset (concat (map snd grouped)) = mset [0, 1, 2]"
    and res: "\<forall>res w'. get_alerts_by_fingerprint example_provider ''tenant'' [0, 1, 2] ?w
                = (Inr res, w') \<longrightarrow> res = grouped"
    by blast
  have run: "fst (get_alerts_by_fingerprint example_provider ''tenant'' [0, 1, 2] ?w)
       = Inr [(PStr ''f1'', [0, 2]), (PStr ''f2'', [1])]"
    by (simp add: get_alerts_by_fingerprint_def group_by_fingerprint_def py_sorted_def
        example_provider_def three_alerts_def getattr_def Let_def less_eq_char_def less_char_def)
  with res have "grouped = [(PStr ''f1'', [0, 2]), (PStr ''f2'', [1])]"
    by (metis prod.collapse)
  with dist members fps run show ?thesis by simp
qed

text \<open>
  C7. When no alert is fetched, \<^verbatim>\<open>get_alerts_by_fingerprint\<close> returns the empty mapping
  and leaves everything as it was: \<^verbatim>\<open>get_enrichments\<close> is not called.
\<close>

theorem get_alerts_by_fingerprint_no_alerts:
  "get_alerts_by_fingerprint p tenant [] w = (Inr [], w)"
  by (simp add: get_alerts_by_fingerprint_def)

text \<open>
  C2, at two alerts of one fingerprint fetched with the later one first: the group keeps
  the order of the fetch, day 2 before day 1. The alerts are sorted by fingerprint only,
  although the docstring of the function says sorted by \<^verbatim>\<open>lastReceived\<close>.
\<close>

theorem get_alerts_by_fingerprint_group_order:
  "fst (get_alerts_by_fingerprint example_provider ''tenant'' [0, 1]
          \<lparr>heap = two_alerts, get_enrichments_calls = []\<rparr>)
     = Inr [(PStr ''f1'', [0, 1])]
   \<and> map (\<lambda>a. getattr (heap (snd (get_alerts_by_fingerprint example_provider ''tenant'' [0, 1]
                \<lparr>heap = two_alerts, get_enrichments_calls = []\<rparr>)) a) ''lastReceived'') [0, 1]
     = [Inr (PStr ''2024-01-02T00:00:00''), Inr (PStr ''2024-01-01T00:00:00'')]
   \<and> ''2024-01-01T00:00:00'' < ''2024-01-02T00:00:00''"
  by (simp add: get_alerts_by_fingerprint_def group_by_fingerprint_def py_sorted_def
      example_provider_def two_alerts_def getattr_def Let_def less_eq_char_def less_char_def)

end
